theory Spec2Isabelle
  imports Main "HOL-Library.AList" "HOL-Library.Multiset"
begin

section \<open>Values, dictionaries and exceptions\<close>

text \<open>
  A Python scalar as the database stores it. \<open>PNone\<close> is Python's \<open>None\<close>. A float is an
  IEEE double: \<open>Float m e\<close> is the finite value \<open>m * 2 ^ e\<close> (\<open>Float 0 0\<close> is \<open>0.0\<close> and
  \<open>NegZero\<close> is \<open>-0.0\<close>), beside the two infinities and NaN.

  A Python \<open>dict\<close> is an association list with distinct keys in insertion order:
  \<open>d[k] = v\<close> is \<open>AList.update k v d\<close> (an existing key keeps its place, a new key goes to
  the end), \<open>del d[k]\<close> and \<open>d.pop(k, None)\<close> are \<open>AList.delete k d\<close>, \<open>k in d\<close> is
  \<open>k \<in> fst ` set d\<close> and \<open>d.get(k)\<close> is \<open>map_of d k\<close>. Strings are lists of code points
  below 256.
\<close>

datatype pyfloat = Float int int | NegZero | PosInf | NegInf | NaN

datatype pyval = PNone | PInt int | PFloat pyfloat | PStr string

datatype exn =
    ValueError string | KeyError string | TypeError string | OSError string
  | IndexError string | NotImplementedError string

type_synonym row = "(string \<times> pyval) list"
type_synonym schema = "(string \<times> string) list"
type_synonym table_data = "(string \<times> row) list"

text \<open>\<open>row.get(col)\<close>: a missing column reads as \<open>None\<close>.\<close>

definition row_get :: "row \<Rightarrow> string \<Rightarrow> pyval" where
  "row_get r c = (case map_of r c of None \<Rightarrow> PNone | Some v \<Rightarrow> v)"

subsection \<open>Comparison of values\<close>

text \<open>
  Python compares an \<open>int\<close> with a \<open>float\<close>, and two floats, by their exact values; NaN is
  unequal to every value, itself included, and neither below nor above any. A number that
  is not NaN is ranked by its class (\<open>-1\<close> for \<open>-inf\<close>, \<open>0\<close> for a finite value, \<open>1\<close> for
  \<open>inf\<close>) and, when finite, by mantissa and exponent; two finite values are compared after
  scaling both to the smaller exponent.
\<close>

fun num_rank :: "pyval \<Rightarrow> (int \<times> int \<times> int) option" where
  "num_rank (PInt i) = Some (0, i, 0)"
| "num_rank (PFloat (Float m e)) = Some (0, m, e)"
| "num_rank (PFloat NegZero) = Some (0, 0, 0)"
| "num_rank (PFloat PosInf) = Some (1, 0, 0)"
| "num_rank (PFloat NegInf) = Some (- 1, 0, 0)"
| "num_rank (PFloat NaN) = None"
| "num_rank PNone = None"
| "num_rank (PStr s) = None"

definition scaled :: "int \<Rightarrow> int \<Rightarrow> int \<Rightarrow> int" where
  "scaled m e k = m * 2 ^ nat (e - k)"

fun num_lt :: "int \<times> int \<times> int \<Rightarrow> int \<times> int \<times> int \<Rightarrow> bool" where
  "num_lt (c1, m1, e1) (c2, m2, e2) =
     (c1 < c2 \<or> (c1 = 0 \<and> c2 = 0 \<and> scaled m1 e1 (min e1 e2) < scaled m2 e2 (min e1 e2)))"

fun num_eq :: "int \<times> int \<times> int \<Rightarrow> int \<times> int \<times> int \<Rightarrow> bool" where
  "num_eq (c1, m1, e1) (c2, m2, e2) =
     (c1 = c2 \<and> (if c1 = 0 then scaled m1 e1 (min e1 e2) = scaled m2 e2 (min e1 e2) else True))"

text \<open>Strings compare code point by code point, a proper prefix first.\<close>

fun str_less :: "string \<Rightarrow> string \<Rightarrow> bool" where
  "str_less [] [] = False"
| "str_less [] (b # bs) = True"
| "str_less (a # as) [] = False"
| "str_less (a # as) (b # bs) =
     ((of_char a :: nat) < of_char b \<or> (a = b \<and> str_less as bs))"

fun is_number :: "pyval \<Rightarrow> bool" where
  "is_number (PInt _) = True"
| "is_number (PFloat _) = True"
| "is_number _ = False"

fun is_str :: "pyval \<Rightarrow> bool" where
  "is_str (PStr _) = True"
| "is_str _ = False"

text \<open>
  \<open>a < b\<close> is defined between two numbers and between two strings and raises \<open>TypeError\<close>
  for any other pair (\<open>py_comparable\<close>); \<open>py_lt\<close> is its value where it is defined.
  \<open>a == b\<close> is defined for every pair (\<open>py_eq\<close>), and \<open>a != b\<close> is its negation.
\<close>

definition py_comparable :: "pyval \<Rightarrow> pyval \<Rightarrow> bool" where
  "py_comparable a b = ((is_number a \<and> is_number b) \<or> (is_str a \<and> is_str b))"

definition py_lt :: "pyval \<Rightarrow> pyval \<Rightarrow> bool" where
  "py_lt a b =
     (case (a, b) of
        (PStr s, PStr t) \<Rightarrow> str_less s t
      | _ \<Rightarrow> (case (num_rank a, num_rank b) of
                (Some x, Some y) \<Rightarrow> num_lt x y
              | _ \<Rightarrow> False))"

definition py_eq :: "pyval \<Rightarrow> pyval \<Rightarrow> bool" where
  "py_eq a b =
     (case (a, b) of
        (PNone, PNone) \<Rightarrow> True
      | (PStr s, PStr t) \<Rightarrow> s = t
      | _ \<Rightarrow> (case (num_rank a, num_rank b) of
                (Some x, Some y) \<Rightarrow> num_eq x y
              | _ \<Rightarrow> False))"

text \<open>
  A value used as a \<open>dict\<close> key, or inside a tuple that is one. Keys that are equal by
  \<open>==\<close> are one key (\<open>1\<close> and \<open>1.0\<close> have the same hash), so a key is kept in a normal form:
  a float with an integral value as that integer, any other finite float with an odd
  mantissa. \<open>reduce\<close> divides an even mantissa by two as long as it can. A NaN key is found
  again by Python only through the identical object; here it is a key like any other,
  which is what a row looked up by its own values sees.
\<close>

function reduce :: "int \<Rightarrow> int \<Rightarrow> int \<times> int" where
  "reduce m e = (if m = 0 then (0, 0) else if even m then reduce (m div 2) (e + 1) else (m, e))"
  by pat_completeness auto
termination
  by (relation "measure (\<lambda>(m, e). nat \<bar>m\<bar>)") auto

definition py_key :: "pyval \<Rightarrow> pyval" where
  "py_key v =
     (case v of
        PFloat (Float m e) \<Rightarrow>
          (case reduce m e of
             (m', e') \<Rightarrow> if 0 \<le> e' then PInt (m' * 2 ^ nat e') else PFloat (Float m' e'))
      | PFloat NegZero \<Rightarrow> PInt 0
      | _ \<Rightarrow> v)"

section \<open>Write-ahead log (storage_engine.py, class WriteAheadLog)\<close>

text \<open>
  The \<open>value\<close> field of a WAL record is a row (PUT), a schema (CREATE\_TABLE) or \<open>None\<close>.
  The timestamp of a record is never read back and is left out.
\<close>

datatype wal_value = WRow row | WSchema schema | WNone

record wal_entry =
  entry_operation :: string
  entry_table :: string
  entry_key :: string
  entry_value :: wal_value

text \<open>
  The log directory holds one file, \<open>wal_0000000001.log\<close> (\<open>log_index\<close> is reset to 0 and
  incremented once by every constructor and by \<open>truncate\<close>); \<open>entries\<close> is its content.
  \<open>healthy\<close> is the environment: whether write, flush and fsync of the next append succeed.
  A failed append raises \<open>OSError\<close> and is taken to leave nothing durable.
\<close>

record wal_log =
  entries :: "wal_entry list"
  log_index :: nat
  healthy :: bool

definition wal_append :: "string \<Rightarrow> string \<Rightarrow> string \<Rightarrow> wal_value \<Rightarrow> wal_log \<Rightarrow> (exn + nat) \<times> wal_log" where
  "wal_append opn t k v w =
     (if healthy w
      then (Inr (log_index w),
            w\<lparr>entries := entries w @ [\<lparr>entry_operation = opn, entry_table = t, entry_key = k, entry_value = v\<rparr>]\<rparr>)
      else (Inl (OSError ''fsync failed''), w))"

definition read_all_entries :: "wal_log \<Rightarrow> wal_entry list" where
  "read_all_entries w = entries w"

definition wal_truncate :: "wal_log \<Rightarrow> wal_log" where
  "wal_truncate w = w\<lparr>entries := [], log_index := 1\<rparr>"

section \<open>Storage engine (storage_engine.py, class StorageEngine)\<close>

text \<open>
  \<open>tables\<close> is a \<open>defaultdict(dict)\<close>: reading \<open>self.tables[t]\<close> for a missing \<open>t\<close> yields an
  empty dict (and stores it), whereas \<open>del self.tables[t]\<close> on a missing \<open>t\<close> raises
  \<open>KeyError\<close>. \<open>snapshot_file\<close> is the content of \<open>snapshot.json\<close> when the file exists.
  An operation returns its outcome (\<open>Inl\<close> the exception raised) together with the engine
  as the exception, or the return, leaves it.
\<close>

record engine =
  tables :: "(string \<times> table_data) list"
  schemas :: "(string \<times> schema) list"
  wal :: wal_log
  snapshot_file :: "((string \<times> table_data) list \<times> (string \<times> schema) list) option"
  snapshot_interval :: int
  operations_since_snapshot :: int

definition tables_getitem :: "(string \<times> table_data) list \<Rightarrow> string \<Rightarrow> table_data" where
  "tables_getitem ts t = (case map_of ts t of None \<Rightarrow> [] | Some d \<Rightarrow> d)"

definition snapshot :: "engine \<Rightarrow> engine" where
  "snapshot e = e\<lparr>snapshot_file := Some (tables e, schemas e),
                  wal := wal_truncate (wal e),
                  operations_since_snapshot := 0\<rparr>"

definition check_snapshot :: "engine \<Rightarrow> engine" where
  "check_snapshot e =
     (if operations_since_snapshot e \<ge> snapshot_interval e then snapshot e else e)"

definition create_table :: "string \<Rightarrow> schema \<Rightarrow> engine \<Rightarrow> (exn + unit) \<times> engine" where
  "create_table table_name sch e =
     (if table_name \<in> fst ` set (schemas e)
      then (Inl (ValueError (''Table '' @ table_name @ '' already exists'')), e)
      else
        let e1 = e\<lparr>schemas := AList.update table_name sch (schemas e)\<rparr>;
            e2 = e1\<lparr>tables := AList.update table_name [] (tables e1)\<rparr>
        in case wal_append ''CREATE_TABLE'' table_name '''' (WSchema sch) (wal e2) of
             (Inl x, w) \<Rightarrow> (Inl x, e2\<lparr>wal := w\<rparr>)
           | (Inr _, w) \<Rightarrow> (Inr (), check_snapshot (e2\<lparr>wal := w\<rparr>)))"

definition drop_table :: "string \<Rightarrow> engine \<Rightarrow> (exn + unit) \<times> engine" where
  "drop_table table_name e =
     (if table_name \<notin> fst ` set (schemas e)
      then (Inl (ValueError (''Table '' @ table_name @ '' does not exist'')), e)
      else
        let e1 = e\<lparr>schemas := AList.delete table_name (schemas e)\<rparr>
        in if table_name \<notin> fst ` set (tables e1)
           then (Inl (KeyError table_name), e1)
           else
             let e2 = e1\<lparr>tables := AList.delete table_name (tables e1)\<rparr>
             in case wal_append ''DROP_TABLE'' table_name '''' WNone (wal e2) of
                  (Inl x, w) \<Rightarrow> (Inl x, e2\<lparr>wal := w\<rparr>)
                | (Inr _, w) \<Rightarrow> (Inr (), check_snapshot (e2\<lparr>wal := w\<rparr>)))"

definition get_schema :: "string \<Rightarrow> engine \<Rightarrow> schema option" where
  "get_schema table_name e = map_of (schemas e) table_name"

definition list_tables :: "engine \<Rightarrow> string list" where
  "list_tables e = map fst (schemas e)"

text \<open>The schema check of \<open>put\<close> raises at the first column of the row that the schema lacks.\<close>

definition put :: "string \<Rightarrow> string \<Rightarrow> row \<Rightarrow> engine \<Rightarrow> (exn + unit) \<times> engine" where
  "put t k v e =
     (case map_of (schemas e) t of
        None \<Rightarrow> (Inl (ValueError (''Table '' @ t @ '' does not exist'')), e)
      | Some sch \<Rightarrow>
          (case filter (\<lambda>col_name. col_name \<notin> fst ` set sch) (map fst v) of
             col_name # _ \<Rightarrow>
               (Inl (ValueError (''Column '' @ col_name @ '' not in schema for table '' @ t)), e)
           | [] \<Rightarrow>
               let e1 = e\<lparr>tables := AList.update t (AList.update k v (tables_getitem (tables e) t))
                                        (tables e)\<rparr>
               in case wal_append ''PUT'' t k (WRow v) (wal e1) of
                    (Inl x, w) \<Rightarrow> (Inl x, e1\<lparr>wal := w\<rparr>)
                  | (Inr _, w) \<Rightarrow>
                      (Inr (), check_snapshot
                         (e1\<lparr>wal := w,
                             operations_since_snapshot := operations_since_snapshot e1 + 1\<rparr>))))"

definition get :: "string \<Rightarrow> string \<Rightarrow> engine \<Rightarrow> row option" where
  "get t k e = (case map_of (tables e) t of None \<Rightarrow> None | Some d \<Rightarrow> map_of d k)"

definition delete :: "string \<Rightarrow> string \<Rightarrow> engine \<Rightarrow> (exn + bool) \<times> engine" where
  "delete t k e =
     (case map_of (tables e) t of
        None \<Rightarrow> (Inr False, e)
      | Some d \<Rightarrow>
          if k \<in> fst ` set d
          then
            let e1 = e\<lparr>tables := AList.update t (AList.delete k d) (tables e)\<rparr>
            in case wal_append ''DELETE'' t k WNone (wal e1) of
                 (Inl x, w) \<Rightarrow> (Inl x, e1\<lparr>wal := w\<rparr>)
               | (Inr _, w) \<Rightarrow>
                   (Inr True, check_snapshot
                      (e1\<lparr>wal := w,
                          operations_since_snapshot := operations_since_snapshot e1 + 1\<rparr>))
          else (Inr False, e))"

definition scan :: "string \<Rightarrow> engine \<Rightarrow> (string \<times> row) list" where
  "scan t e = (case map_of (tables e) t of None \<Rightarrow> [] | Some d \<Rightarrow> d)"

text \<open>
  Replay of one WAL record in \<open>_recover\<close>. \<open>self.tables[table]\<close> in the PUT and DELETE
  branches goes through the \<open>defaultdict\<close>, so both leave an entry for the table; the
  CREATE\_TABLE branch assigns the schema only. A record whose value has the wrong shape
  cannot be written by this engine; replay stores an empty row or schema for it.
\<close>

definition replay_entry :: "wal_entry \<Rightarrow> engine \<Rightarrow> engine" where
  "replay_entry en e =
     (if entry_operation en = ''PUT''
      then e\<lparr>tables := AList.update (entry_table en)
                 (AList.update (entry_key en) (case entry_value en of WRow r \<Rightarrow> r | _ \<Rightarrow> [])
                    (tables_getitem (tables e) (entry_table en)))
                 (tables e)\<rparr>
      else if entry_operation en = ''DELETE''
      then e\<lparr>tables := AList.update (entry_table en)
                 (AList.delete (entry_key en) (tables_getitem (tables e) (entry_table en)))
                 (tables e)\<rparr>
      else if entry_operation en = ''CREATE_TABLE''
      then e\<lparr>schemas := AList.update (entry_table en) (case entry_value en of WSchema s \<Rightarrow> s | _ \<Rightarrow> [])
                 (schemas e)\<rparr>
      else if entry_operation en = ''DROP_TABLE''
      then e\<lparr>tables := AList.delete (entry_table en) (tables e),
              schemas := AList.delete (entry_table en) (schemas e)\<rparr>
      else e)"

definition recover :: "engine \<Rightarrow> engine" where
  "recover e =
     (let e1 = (case snapshot_file e of
                  None \<Rightarrow> e
                | Some (ts, ss) \<Rightarrow> e\<lparr>tables := ts, schemas := ss\<rparr>)
      in fold replay_entry (read_all_entries (wal e1)) e1)"

text \<open>
  The constructor over a data directory and a WAL directory with the given content: empty
  maps, the log file opened for appending, then recovery. \<open>new_engine\<close> opens empty
  directories; \<open>reopen\<close> discards the in-memory state of an engine and constructs a new one
  over what it left on disk.
\<close>

definition open_engine ::
  "((string \<times> table_data) list \<times> (string \<times> schema) list) option \<Rightarrow> wal_entry list \<Rightarrow> bool \<Rightarrow> int \<Rightarrow> engine" where
  "open_engine snap log ok interval =
     recover \<lparr>tables = [], schemas = [],
              wal = \<lparr>entries = log, log_index = 1, healthy = ok\<rparr>,
              snapshot_file = snap,
              snapshot_interval = interval,
              operations_since_snapshot = 0\<rparr>"

definition new_engine :: "bool \<Rightarrow> int \<Rightarrow> engine" where
  "new_engine ok interval = open_engine None [] ok interval"

definition reopen :: "engine \<Rightarrow> engine" where
  "reopen e = open_engine (snapshot_file e) (entries (wal e)) (healthy (wal e)) (snapshot_interval e)"

text \<open>A sequence of storage operations, applied in order; an operation that raises leaves
  the engine as the exception found it and the sequence goes on.\<close>

datatype storage_op =
    CreateTable string schema
  | DropTable string
  | Put string string row
  | Delete string string
  | Snapshot

fun apply_op :: "storage_op \<Rightarrow> engine \<Rightarrow> engine" where
  "apply_op (CreateTable t s) e = snd (create_table t s e)"
| "apply_op (DropTable t) e = snd (drop_table t e)"
| "apply_op (Put t k v) e = snd (put t k v e)"
| "apply_op (Delete t k) e = snd (delete t k e)"
| "apply_op Snapshot e = snapshot e"

definition apply_ops :: "storage_op list \<Rightarrow> engine \<Rightarrow> engine" where
  "apply_ops ops e = fold apply_op ops e"

section \<open>Indexes (index_manager.py)\<close>

text \<open>
  A Python \<open>set\<close> of row keys is a duplicate-free list; the order in which Python iterates
  a set is not specified, the model keeps insertion order, and no property below depends
  on it.
\<close>

definition set_add :: "string \<Rightarrow> string list \<Rightarrow> string list" where
  "set_add k s = (if k \<in> set s then s else s @ [k])"

definition set_discard :: "string \<Rightarrow> string list \<Rightarrow> string list" where
  "set_discard k s = removeAll k s"

text \<open>
  \<open>HashIndex\<close> keeps a \<open>defaultdict(set)\<close> from the tuple of the indexed columns to row
  keys; \<open>BTreeIndex\<close> keeps a \<open>SortedDict\<close> from the value of its one column to row keys.
  The sorted order of a \<open>SortedDict\<close> is read by \<open>range_scan\<close> only, which returns a set,
  so the buckets are kept in insertion order here. Adding a new key to a \<open>SortedDict\<close>
  compares it with keys already there and raises \<open>TypeError\<close> before anything is stored
  when they cannot be ordered.
\<close>

datatype index =
    HashIndex (table_of: string) (columns_of: "string list")
              (hash_buckets: "(pyval list \<times> string list) list")
  | BTreeIndex (table_of: string) (columns_of: "string list")
               (btree_buckets: "(pyval \<times> string list) list")

definition bucket :: "('k \<times> string list) list \<Rightarrow> 'k \<Rightarrow> string list" where
  "bucket bs k = (case map_of bs k of None \<Rightarrow> [] | Some s \<Rightarrow> s)"

definition bucket_discard :: "'k \<Rightarrow> string \<Rightarrow> ('k \<times> string list) list \<Rightarrow> ('k \<times> string list) list" where
  "bucket_discard ik k bs =
     (case map_of bs ik of
        None \<Rightarrow> bs
      | Some s \<Rightarrow> (if set_discard k s = [] then AList.delete ik bs
                   else AList.update ik (set_discard k s) bs))"

text \<open>\<open>_get_index_key\<close>: the tuple \<open>tuple(row.get(col) for col in self.columns)\<close> as a key.\<close>

definition index_key_of :: "string list \<Rightarrow> row \<Rightarrow> pyval list" where
  "index_key_of cols r = map (\<lambda>col. py_key (row_get r col)) cols"

fun index_insert :: "string \<Rightarrow> row \<Rightarrow> index \<Rightarrow> exn + index" where
  "index_insert k r (HashIndex t cols bs) =
     (let index_key = index_key_of cols r
      in Inr (HashIndex t cols (AList.update index_key (set_add k (bucket bs index_key)) bs)))"
| "index_insert k r (BTreeIndex t cols bs) =
     (case cols of
        [] \<Rightarrow> Inl (IndexError ''list index out of range'')
      | c # _ \<Rightarrow>
          let v = row_get r c
          in if v = PNone then Inr (BTreeIndex t cols bs)
             else if py_key v \<in> fst ` set bs
             then Inr (BTreeIndex t cols (AList.update (py_key v) (set_add k (bucket bs (py_key v))) bs))
             else if \<forall>u \<in> fst ` set bs. py_comparable v u
             then Inr (BTreeIndex t cols (AList.update (py_key v) [k] bs))
             else Inl (TypeError ''< not supported between instances''))"

fun index_delete :: "string \<Rightarrow> row \<Rightarrow> index \<Rightarrow> index" where
  "index_delete k r (HashIndex t cols bs) =
     HashIndex t cols (bucket_discard (index_key_of cols r) k bs)"
| "index_delete k r (BTreeIndex t cols bs) =
     (case cols of
        [] \<Rightarrow> BTreeIndex t cols bs
      | c # _ \<Rightarrow>
          let v = row_get r c
          in if v \<noteq> PNone then BTreeIndex t cols (bucket_discard (py_key v) k bs)
             else BTreeIndex t cols bs)"

text \<open>
  The body of \<open>lookup\<close>, on the dictionary of its keyword arguments; \<open>conditions.get(col)\<close>
  reads a missing column as \<open>None\<close>.
\<close>

fun lookup :: "index \<Rightarrow> row \<Rightarrow> string list" where
  "lookup (HashIndex t cols bs) conditions = bucket bs (index_key_of cols conditions)"
| "lookup (BTreeIndex t cols bs) conditions =
     (case cols of
        [] \<Rightarrow> []
      | c # _ \<Rightarrow> (if c \<in> fst ` set conditions
                   then bucket bs (py_key (row_get conditions c)) else []))"

text \<open>
  The call \<open>index.lookup(**conditions)\<close>: a condition on a column named \<open>self\<close> collides
  with the receiver of the method and the call raises \<open>TypeError\<close> before the body runs.
\<close>

definition class_name :: "index \<Rightarrow> string" where
  "class_name i = (case i of HashIndex _ _ _ \<Rightarrow> ''HashIndex'' | BTreeIndex _ _ _ \<Rightarrow> ''BTreeIndex'')"

definition lookup_call :: "index \<Rightarrow> row \<Rightarrow> exn + string list" where
  "lookup_call i conditions =
     (if ''self'' \<in> fst ` set conditions
      then Inl (TypeError (class_name i @ ''.lookup() got multiple values for argument ''
                            @ [CHR 0x27] @ ''self'' @ [CHR 0x27]))
      else Inr (lookup i conditions))"

text \<open>
  \<open>range_scan(column, start, end)\<close> with \<open>None\<close> for an open bound. \<open>irange\<close> bisects the
  sorted keys with each bound given, which raises on a non-empty index whose keys cannot be
  ordered against the bound; it keeps the keys that are not below \<open>start\<close> and not above
  \<open>end\<close>.
\<close>

fun range_scan :: "index \<Rightarrow> string \<Rightarrow> pyval \<Rightarrow> pyval \<Rightarrow> exn + string list" where
  "range_scan (HashIndex t cols bs) column start end' =
     Inl (NotImplementedError ''Hash indexes don't support range scans'')"
| "range_scan (BTreeIndex t cols bs) column start end' =
     (case cols of
        [] \<Rightarrow> Inl (IndexError ''list index out of range'')
      | c # _ \<Rightarrow>
          if column \<noteq> c then Inl (ValueError (''Index is on '' @ c @ '', not '' @ column))
          else if (start \<noteq> PNone \<and> (\<exists>u \<in> fst ` set bs. \<not> py_comparable start u))
                \<or> (end' \<noteq> PNone \<and> (\<exists>u \<in> fst ` set bs. \<not> py_comparable end' u))
          then Inl (TypeError ''< not supported between instances'')
          else Inr (remdups (concat (map snd
                 (filter (\<lambda>(v, s). (start = PNone \<or> \<not> py_lt v start)
                                   \<and> (end' = PNone \<or> \<not> py_lt end' v))
                    bs)))))"

section \<open>Index manager (index_manager.py, class IndexManager)\<close>

text \<open>\<open>indexes\<close> is a \<open>defaultdict(dict)\<close> from table to index name to index.\<close>

type_synonym index_manager = "(string \<times> (string \<times> index) list) list"

definition indexes_get :: "index_manager \<Rightarrow> string \<Rightarrow> (string \<times> index) list" where
  "indexes_get m t = (case map_of m t of None \<Rightarrow> [] | Some d \<Rightarrow> d)"

definition create_index ::
  "string \<Rightarrow> string \<Rightarrow> string list \<Rightarrow> string \<Rightarrow> index_manager \<Rightarrow> (exn + index) \<times> index_manager" where
  "create_index index_name t cols index_type m =
     (let d = indexes_get m t;
          m1 = AList.update t d m
      in if index_name \<in> fst ` set d
         then (Inl (ValueError (''Index '' @ index_name @ '' already exists on table '' @ t)), m1)
         else if index_type = ''hash''
         then (Inr (HashIndex t cols []),
               AList.update t (AList.update index_name (HashIndex t cols []) d) m1)
         else if index_type = ''btree''
         then (if length cols \<noteq> 1
               then (Inl (ValueError ''BTreeIndex only supports single column''), m1)
               else (Inr (BTreeIndex t cols []),
                     AList.update t (AList.update index_name (BTreeIndex t cols []) d) m1))
         else (Inl (ValueError (''Unknown index type: '' @ index_type)), m1))"

definition drop_index :: "string \<Rightarrow> string \<Rightarrow> index_manager \<Rightarrow> index_manager" where
  "drop_index t index_name m =
     (case map_of m t of
        None \<Rightarrow> m
      | Some d \<Rightarrow> (if index_name \<in> fst ` set d then AList.update t (AList.delete index_name d) m
                   else m))"

definition get_index :: "string \<Rightarrow> string \<Rightarrow> index_manager \<Rightarrow> index option" where
  "get_index t index_name m = map_of (indexes_get m t) index_name"

definition get_indexes_for_table :: "string \<Rightarrow> index_manager \<Rightarrow> (string \<times> index) list" where
  "get_indexes_for_table t m = indexes_get m t"

text \<open>
  \<open>insert_row\<close> walks the indexes of the table in order; when one \<open>insert\<close> raises, the
  indexes before it have the row and the others do not.
\<close>

fun insert_each :: "string \<Rightarrow> row \<Rightarrow> (string \<times> index) list \<Rightarrow> (exn + unit) \<times> (string \<times> index) list" where
  "insert_each k r [] = (Inr (), [])"
| "insert_each k r ((n, i) # rest) =
     (case index_insert k r i of
        Inl x \<Rightarrow> (Inl x, (n, i) # rest)
      | Inr i' \<Rightarrow> (case insert_each k r rest of (res, rest') \<Rightarrow> (res, (n, i') # rest')))"

definition insert_row :: "string \<Rightarrow> string \<Rightarrow> row \<Rightarrow> index_manager \<Rightarrow> (exn + unit) \<times> index_manager" where
  "insert_row t k r m =
     (case map_of m t of
        None \<Rightarrow> (Inr (), m)
      | Some d \<Rightarrow> (case insert_each k r d of (res, d') \<Rightarrow> (res, AList.update t d' m)))"

definition delete_row :: "string \<Rightarrow> string \<Rightarrow> row \<Rightarrow> index_manager \<Rightarrow> index_manager" where
  "delete_row t k r m =
     (case map_of m t of
        None \<Rightarrow> m
      | Some d \<Rightarrow> AList.update t (map (\<lambda>(n, i). (n, index_delete k r i)) d) m)"

text \<open>\<open>find_best_index\<close>: the first index with the highest number of columns named in the
  conditions, provided that number is positive.\<close>

definition score :: "index \<Rightarrow> row \<Rightarrow> int" where
  "score i conditions = int (length (filter (\<lambda>col. col \<in> fst ` set conditions) (columns_of i)))"

fun best_of :: "row \<Rightarrow> index list \<Rightarrow> index option \<times> int \<Rightarrow> index option \<times> int" where
  "best_of conditions [] acc = acc"
| "best_of conditions (i # rest) (best_index, best_score) =
     (if score i conditions > best_score
      then best_of conditions rest (Some i, score i conditions)
      else best_of conditions rest (best_index, best_score))"

definition find_best_index :: "string \<Rightarrow> row \<Rightarrow> index_manager \<Rightarrow> index option" where
  "find_best_index t conditions m =
     (case best_of conditions (map snd (indexes_get m t)) (None, -1) of
        (best_index, best_score) \<Rightarrow> (if best_score > 0 then best_index else None))"

section \<open>Plans and results (sql_parser.py, class ParsedQuery)\<close>

text \<open>
  The plan object. \<open>table\<close> and \<open>index_name\<close> are strings: a plan in which the parser left
  them \<open>None\<close> is not covered. \<open>limit\<close> is \<open>None\<close> when the statement has no LIMIT.
\<close>

record parsed_query =
  query_type :: string
  table :: string
  columns :: "string list"
  conditions :: row
  vals :: row
  schema :: schema
  order_by :: "(string \<times> string) list"
  limit :: "int option"
  index_name :: string
  index_columns :: "string list"
  index_type :: string

text \<open>The result dictionary; a key that is absent from the dictionary is \<open>None\<close>.\<close>

record result =
  status :: string
  message :: "string option"
  rows :: "row list option"
  row_count :: "nat option"
  rows_affected :: "nat option"
  inserted_key :: "string option"
  node_id :: "string option"
  is_leader :: "bool option"

definition result_of :: "string \<Rightarrow> string option \<Rightarrow> result" where
  "result_of st msg = \<lparr>status = st, message = msg, rows = None, row_count = None,
     rows_affected = None, inserted_key = None, node_id = None, is_leader = None\<rparr>"

fun show_nat :: "nat \<Rightarrow> string" where
  "show_nat n = (if n < 10 then [char_of (48 + n)]
                 else show_nat (n div 10) @ [char_of (48 + n mod 10)])"

section \<open>Sorting and slicing\<close>

text \<open>
  \<open>list.sort(key=..., reverse=...)\<close> is a stable sort that compares keys with \<open><\<close> only;
  with \<open>reverse=True\<close> it reverses the list, sorts, and reverses again, which keeps equal
  elements in their original order. Sorting two or more elements has to compare keys, and
  it cannot finish without comparing some key of one kind with some key of another when
  the list has both, so it raises \<open>TypeError\<close> unless the keys are all numbers or all
  strings; the text of the exception names the two types of the comparison that failed
  and is cut short here. \<open>insort_lt\<close> puts an element after those that are not above it.
  When a key is NaN, every comparison with it is false and the order Python leaves
  depends on the comparisons its merge sort happens to make; \<open>py_sort\<close> then returns what
  insertion gives, and no property is stated for such keys.
\<close>

fun insort_lt :: "('a \<Rightarrow> 'a \<Rightarrow> bool) \<Rightarrow> 'a \<Rightarrow> 'a list \<Rightarrow> 'a list" where
  "insort_lt lt x [] = [x]"
| "insort_lt lt x (y # ys) = (if lt x y then x # y # ys else y # insort_lt lt x ys)"

definition stable_sort :: "('a \<Rightarrow> 'a \<Rightarrow> bool) \<Rightarrow> 'a list \<Rightarrow> 'a list" where
  "stable_sort lt xs = foldl (\<lambda>acc x. insort_lt lt x acc) [] xs"

definition py_sort :: "('a \<Rightarrow> pyval) \<Rightarrow> bool \<Rightarrow> 'a list \<Rightarrow> exn + 'a list" where
  "py_sort keyf reverse xs =
     (if length xs \<le> 1 \<or> (\<forall>x \<in> set xs. is_number (keyf x)) \<or> (\<forall>x \<in> set xs. is_str (keyf x))
      then Inr (if reverse
                then rev (stable_sort (\<lambda>a b. py_lt (keyf a) (keyf b)) (rev xs))
                else stable_sort (\<lambda>a b. py_lt (keyf a) (keyf b)) xs)
      else Inl (TypeError ''< not supported between instances''))"

text \<open>\<open>xs[:n]\<close>: a negative \<open>n\<close> counts from the end.\<close>

definition py_prefix :: "int \<Rightarrow> 'a list \<Rightarrow> 'a list" where
  "py_prefix n xs = (if n \<ge> 0 then take (nat n) xs else take (nat (int (length xs) + n)) xs)"

section \<open>Query executor (query_executor.py, class QueryExecutor)\<close>

text \<open>
  The executor owns a storage engine and an index manager. A statement returns its result,
  or the exception it raised, together with the state it leaves behind. The row identifier
  that INSERT draws from \<open>uuid.uuid4()\<close> is an argument.
\<close>

record executor =
  storage :: engine
  index_manager :: index_manager

text \<open>\<open>_matches_conditions\<close>: no condition with \<open>row.get(col) != value\<close>.\<close>

definition matches_conditions :: "row \<Rightarrow> row \<Rightarrow> bool" where
  "matches_conditions r conds = (\<forall>(col, v) \<in> set conds. py_eq (row_get r col) v)"

text \<open>\<open>{**a, **b}\<close> and \<open>{**row, '_key': key}\<close>.\<close>

definition dict_merge :: "row \<Rightarrow> row \<Rightarrow> row" where
  "dict_merge a b = fold (\<lambda>(c, v). AList.update c v) b a"

definition with_key :: "row \<Rightarrow> string \<Rightarrow> row" where
  "with_key r k = AList.update ''_key'' (PStr k) r"

definition execute_create_table :: "parsed_query \<Rightarrow> executor \<Rightarrow> (exn + result) \<times> executor" where
  "execute_create_table q ex =
     (case create_table (table q) (schema q) (storage ex) of
        (Inl x, e) \<Rightarrow> (Inl x, ex\<lparr>storage := e\<rparr>)
      | (Inr _, e) \<Rightarrow>
          (Inr ((result_of ''success'' (Some (''Table '' @ table q @ '' created'')))
                  \<lparr>rows_affected := Some 0\<rparr>),
           ex\<lparr>storage := e\<rparr>))"

definition execute_drop_table :: "parsed_query \<Rightarrow> executor \<Rightarrow> (exn + result) \<times> executor" where
  "execute_drop_table q ex =
     (case drop_table (table q) (storage ex) of
        (Inl x, e) \<Rightarrow> (Inl x, ex\<lparr>storage := e\<rparr>)
      | (Inr _, e) \<Rightarrow>
          (Inr ((result_of ''success'' (Some (''Table '' @ table q @ '' dropped'')))
                  \<lparr>rows_affected := Some 0\<rparr>),
           ex\<lparr>storage := e,
              index_manager :=
                fold (\<lambda>index_name. drop_index (table q) index_name)
                  (map fst (get_indexes_for_table (table q) (index_manager ex)))
                  (index_manager ex)\<rparr>))"

text \<open>
  The back-fill of CREATE INDEX inserts into the index object that the manager already
  holds; when an insert raises, the index stays registered with the rows inserted so far.
\<close>

fun backfill :: "(string \<times> row) list \<Rightarrow> index \<Rightarrow> (exn + unit) \<times> index" where
  "backfill [] i = (Inr (), i)"
| "backfill ((k, r) # rest) i =
     (case index_insert k r i of
        Inl x \<Rightarrow> (Inl x, i)
      | Inr i' \<Rightarrow> backfill rest i')"

definition execute_create_index :: "parsed_query \<Rightarrow> executor \<Rightarrow> (exn + result) \<times> executor" where
  "execute_create_index q ex =
     (case create_index (index_name q) (table q) (index_columns q) (index_type q)
             (index_manager ex) of
        (Inl x, m) \<Rightarrow> (Inl x, ex\<lparr>index_manager := m\<rparr>)
      | (Inr i, m) \<Rightarrow>
          (case backfill (scan (table q) (storage ex)) i of
             (res, i') \<Rightarrow>
               (case res of
                  Inl x \<Rightarrow> Inl x
                | Inr _ \<Rightarrow>
                    Inr ((result_of ''success''
                            (Some (''Index '' @ index_name q @ '' created on '' @ table q)))
                           \<lparr>rows_affected := Some 0\<rparr>),
                ex\<lparr>index_manager :=
                     AList.update (table q)
                       (AList.update (index_name q) i' (indexes_get m (table q))) m\<rparr>)))"

definition execute_drop_index :: "parsed_query \<Rightarrow> executor \<Rightarrow> (exn + result) \<times> executor" where
  "execute_drop_index q ex =
     (Inr ((result_of ''success'' (Some (''Index '' @ index_name q @ '' dropped'')))
             \<lparr>rows_affected := Some 0\<rparr>),
      ex\<lparr>index_manager := drop_index (table q) (index_name q) (index_manager ex)\<rparr>)"

definition execute_insert :: "string \<Rightarrow> parsed_query \<Rightarrow> executor \<Rightarrow> (exn + result) \<times> executor" where
  "execute_insert k q ex =
     (case put (table q) k (vals q) (storage ex) of
        (Inl x, e) \<Rightarrow> (Inl x, ex\<lparr>storage := e\<rparr>)
      | (Inr _, e) \<Rightarrow>
          (case insert_row (table q) k (vals q) (index_manager ex) of
             (Inl x, m) \<Rightarrow> (Inl x, ex\<lparr>storage := e, index_manager := m\<rparr>)
           | (Inr _, m) \<Rightarrow>
               (Inr ((result_of ''success'' (Some ''Row inserted''))
                       \<lparr>rows_affected := Some 1, inserted_key := Some k\<rparr>),
                ex\<lparr>storage := e, index_manager := m\<rparr>)))"

text \<open>The rows of a SELECT before ORDER BY, LIMIT and projection (lines 112 to 132).\<close>

definition candidate_rows :: "parsed_query \<Rightarrow> executor \<Rightarrow> exn + row list" where
  "candidate_rows q ex =
     (if conditions q \<noteq> []
      then (case find_best_index (table q) (conditions q) (index_manager ex) of
              Some i \<Rightarrow>
                (case lookup_call i (conditions q) of
                   Inl x \<Rightarrow> Inl x
                 | Inr candidate_keys \<Rightarrow>
                     Inr (concat (map (\<lambda>k. case get (table q) k (storage ex) of
                                              None \<Rightarrow> []
                                            | Some r \<Rightarrow>
                                                (if r \<noteq> [] \<and> matches_conditions r (conditions q)
                                                 then [with_key r k] else []))
                                   candidate_keys)))
            | None \<Rightarrow>
                Inr (map (\<lambda>(k, r). with_key r k)
                       (filter (\<lambda>(k, r). matches_conditions r (conditions q))
                          (scan (table q) (storage ex)))))
      else Inr (map (\<lambda>(k, r). with_key r k) (scan (table q) (storage ex))))"

text \<open>\<open>r.get(col, '')\<close>, the sort key of a row.\<close>

definition sort_key_of :: "string \<Rightarrow> row \<Rightarrow> pyval" where
  "sort_key_of col r = (case map_of r col of None \<Rightarrow> PStr [] | Some v \<Rightarrow> v)"

text \<open>The ORDER BY loop over \<open>reversed(query.order_by)\<close>; \<open>sort_each\<close> takes the keys in the
  order the loop visits them.\<close>

fun sort_each :: "(string \<times> string) list \<Rightarrow> row list \<Rightarrow> exn + row list" where
  "sort_each [] rs = Inr rs"
| "sort_each ((col, direction) # ks) rs =
     (case py_sort (sort_key_of col) (direction = ''DESC'') rs of
        Inl x \<Rightarrow> Inl x
      | Inr rs' \<Rightarrow> sort_each ks rs')"

definition apply_order_by :: "(string \<times> string) list \<Rightarrow> row list \<Rightarrow> exn + row list" where
  "apply_order_by ob rs = sort_each (rev ob) rs"

definition apply_limit :: "int option \<Rightarrow> row list \<Rightarrow> row list" where
  "apply_limit lim rs = (case lim of None \<Rightarrow> rs | Some n \<Rightarrow> py_prefix n rs)"

definition project :: "string list \<Rightarrow> row \<Rightarrow> row" where
  "project cols r =
     fold (\<lambda>col. AList.update col (row_get r col)) (filter (\<lambda>col. col \<in> fst ` set r) cols) []"

definition execute_select :: "parsed_query \<Rightarrow> executor \<Rightarrow> (exn + result) \<times> executor" where
  "execute_select q ex =
     (case candidate_rows q ex of
        Inl x \<Rightarrow> (Inl x, ex)
      | Inr found \<Rightarrow>
     (case apply_order_by (order_by q) found of
        Inl x \<Rightarrow> (Inl x, ex)
      | Inr sorted_rows \<Rightarrow>
          let limited = apply_limit (limit q) sorted_rows;
              projected = (if columns q \<noteq> [] \<and> columns q \<noteq> [''*'']
                           then map (project (columns q)) limited else limited)
          in (Inr ((result_of ''success'' None)
                     \<lparr>rows := Some projected, row_count := Some (length projected)\<rparr>),
              ex)))"

fun update_each ::
  "string \<Rightarrow> row \<Rightarrow> row \<Rightarrow> (string \<times> row) list \<Rightarrow> nat \<Rightarrow> executor \<Rightarrow> (exn + nat) \<times> executor" where
  "update_each t conds new_vals [] n ex = (Inr n, ex)"
| "update_each t conds new_vals ((k, r) # rest) n ex =
     (if matches_conditions r conds
      then
        let ex1 = ex\<lparr>index_manager := delete_row t k r (index_manager ex)\<rparr>;
            updated_row = dict_merge r new_vals
        in (case put t k updated_row (storage ex1) of
              (Inl x, e) \<Rightarrow> (Inl x, ex1\<lparr>storage := e\<rparr>)
            | (Inr _, e) \<Rightarrow>
                (case insert_row t k updated_row (index_manager ex1) of
                   (Inl x, m) \<Rightarrow> (Inl x, ex1\<lparr>storage := e, index_manager := m\<rparr>)
                 | (Inr _, m) \<Rightarrow>
                     update_each t conds new_vals rest (n + 1)
                       (ex1\<lparr>storage := e, index_manager := m\<rparr>)))
      else update_each t conds new_vals rest n ex)"

definition execute_update :: "parsed_query \<Rightarrow> executor \<Rightarrow> (exn + result) \<times> executor" where
  "execute_update q ex =
     (case update_each (table q) (conditions q) (vals q) (scan (table q) (storage ex)) 0 ex of
        (Inl x, ex') \<Rightarrow> (Inl x, ex')
      | (Inr n, ex') \<Rightarrow>
          (Inr ((result_of ''success'' (Some (show_nat n @ '' rows updated'')))
                  \<lparr>rows_affected := Some n\<rparr>),
           ex'))"

fun delete_each :: "string \<Rightarrow> (string \<times> row) list \<Rightarrow> nat \<Rightarrow> executor \<Rightarrow> (exn + nat) \<times> executor" where
  "delete_each t [] n ex = (Inr n, ex)"
| "delete_each t ((k, r) # rest) n ex =
     (case delete t k (storage ex) of
        (Inl x, e) \<Rightarrow> (Inl x, ex\<lparr>storage := e\<rparr>)
      | (Inr _, e) \<Rightarrow>
          delete_each t rest (n + 1)
            (ex\<lparr>storage := e, index_manager := delete_row t k r (index_manager ex)\<rparr>))"

definition execute_delete :: "parsed_query \<Rightarrow> executor \<Rightarrow> (exn + result) \<times> executor" where
  "execute_delete q ex =
     (case delete_each (table q)
             (filter (\<lambda>(k, r). matches_conditions r (conditions q)) (scan (table q) (storage ex)))
             0 ex of
        (Inl x, ex') \<Rightarrow> (Inl x, ex')
      | (Inr n, ex') \<Rightarrow>
          (Inr ((result_of ''success'' (Some (show_nat n @ '' rows deleted'')))
                  \<lparr>rows_affected := Some n\<rparr>),
           ex'))"

definition execute :: "string \<Rightarrow> parsed_query \<Rightarrow> executor \<Rightarrow> (exn + result) \<times> executor" where
  "execute uuid q ex =
     (if query_type q = ''CREATE_TABLE'' then execute_create_table q ex
      else if query_type q = ''DROP_TABLE'' then execute_drop_table q ex
      else if query_type q = ''CREATE_INDEX'' then execute_create_index q ex
      else if query_type q = ''DROP_INDEX'' then execute_drop_index q ex
      else if query_type q = ''INSERT'' then execute_insert uuid q ex
      else if query_type q = ''SELECT'' then execute_select q ex
      else if query_type q = ''UPDATE'' then execute_update q ex
      else if query_type q = ''DELETE'' then execute_delete q ex
      else (Inl (ValueError (''Unknown query type: '' @ query_type q)), ex))"

text \<open>\<open>ParsedQuery(query_type)\<close>: the constructor's defaults.\<close>

definition ParsedQuery :: "string \<Rightarrow> parsed_query" where
  "ParsedQuery qt = \<lparr>query_type = qt, table = [], columns = [], conditions = [], vals = [],
     schema = [], order_by = [], limit = None, index_name = [], index_columns = [],
     index_type = ''btree''\<rparr>"

definition new_executor :: "int \<Rightarrow> executor" where
  "new_executor interval = \<lparr>storage = new_engine True interval, index_manager = []\<rparr>"

definition rows_of :: "(exn + result) \<times> executor \<Rightarrow> row list option" where
  "rows_of out = (case fst out of Inl _ \<Rightarrow> None | Inr res \<Rightarrow> rows res)"

section \<open>Consensus log (replication.py, class RaftNode)\<close>

text \<open>
  The node is polymorphic in the command type \<open>'c\<close> and in the state \<open>'w\<close> of whatever the
  apply callback acts on. The callback takes a command and that state, and returns the
  state together with \<open>Inl\<close> the exception it raised or \<open>Inr ()\<close>; it does not call back
  into the node. Timers are not modelled: the expiry of the election timer and the
  heartbeat timer are events of their own. The timestamp of a log entry is left out.
\<close>

datatype NodeState = FOLLOWER | CANDIDATE | LEADER

record 'c LogEntry =
  entry_term :: int
  entry_index :: nat
  command :: 'c

record ('c, 'w) RaftNode =
  raft_node_id :: string
  all_nodes :: "string list"
  current_term :: int
  voted_for :: "string option"
  log :: "'c LogEntry list"
  commit_index :: int
  last_applied :: int
  state :: NodeState
  next_index :: "(string \<times> nat) list"
  match_index :: "(string \<times> nat) list"
  apply_callback :: "('c \<Rightarrow> 'w \<Rightarrow> (exn + unit) \<times> 'w) option"

definition RaftNode_init :: "string \<Rightarrow> string list \<Rightarrow> ('c, 'w) RaftNode" where
  "RaftNode_init nid nodes =
     \<lparr>raft_node_id = nid, all_nodes = nodes, current_term = 0, voted_for = None, log = [],
      commit_index = 0, last_applied = 0, state = FOLLOWER, next_index = [], match_index = [],
      apply_callback = None\<rparr>"

definition set_apply_callback ::
  "('c \<Rightarrow> 'w \<Rightarrow> (exn + unit) \<times> 'w) \<Rightarrow> ('c, 'w) RaftNode \<Rightarrow> ('c, 'w) RaftNode" where
  "set_apply_callback cb n = n\<lparr>apply_callback := Some cb\<rparr>"

text \<open>\<open>xs[i]\<close> for an integer \<open>i\<close>: a negative index counts from the end, an index out of
  range raises \<open>IndexError\<close>.\<close>

definition py_getitem :: "'a list \<Rightarrow> int \<Rightarrow> 'a option" where
  "py_getitem xs i =
     (let j = (if i < 0 then int (length xs) + i else i)
      in if 0 \<le> j \<and> j < int (length xs) then Some (xs ! nat j) else None)"

function apply_committed_entries ::
  "('c, 'w) RaftNode \<Rightarrow> 'w \<Rightarrow> (exn + unit) \<times> ('c, 'w) RaftNode \<times> 'w" where
  "apply_committed_entries n w =
     (if last_applied n < commit_index n
      then
        let n1 = n\<lparr>last_applied := last_applied n + 1\<rparr>
        in if last_applied n1 \<le> int (length (log n1))
           then (case py_getitem (log n1) (last_applied n1 - 1) of
                   None \<Rightarrow> (Inl (IndexError ''list index out of range''), n1, w)
                 | Some entry \<Rightarrow>
                     (case apply_callback n1 of
                        None \<Rightarrow> apply_committed_entries n1 w
                      | Some cb \<Rightarrow>
                          (case cb (command entry) w of
                             (Inl x, w') \<Rightarrow> (Inl x, n1, w')
                           | (Inr _, w') \<Rightarrow> apply_committed_entries n1 w')))
           else apply_committed_entries n1 w
      else (Inr (), n, w))"
  by pat_completeness auto
termination
  by (relation "measure (\<lambda>(n, w). nat (commit_index n - last_applied n))") auto

definition try_commit ::
  "('c, 'w) RaftNode \<Rightarrow> 'w \<Rightarrow> (exn + unit) \<times> ('c, 'w) RaftNode \<times> 'w" where
  "try_commit n w =
     (if state n = LEADER
      then (if int (length (log n)) > commit_index n
            then apply_committed_entries (n\<lparr>commit_index := int (length (log n))\<rparr>) w
            else (Inr (), n, w))
      else (Inr (), n, w))"

definition append_entry ::
  "'c \<Rightarrow> ('c, 'w) RaftNode \<Rightarrow> 'w \<Rightarrow> (exn + bool) \<times> ('c, 'w) RaftNode \<times> 'w" where
  "append_entry cmd n w =
     (if state n \<noteq> LEADER then (Inr False, n, w)
      else
        let entry = \<lparr>entry_term = current_term n, entry_index = length (log n), command = cmd\<rparr>
        in case try_commit (n\<lparr>log := log n @ [entry]\<rparr>) w of
             (Inl x, n', w') \<Rightarrow> (Inl x, n', w')
           | (Inr _, n', w') \<Rightarrow> (Inr True, n', w'))"






definition raft_is_leader :: "('c, 'w) RaftNode \<Rightarrow> bool" where
  "raft_is_leader n = (state n = LEADER)"

definition get_leader_id :: "('c, 'w) RaftNode \<Rightarrow> string option" where
  "get_leader_id n = (if state n = LEADER then Some (raft_node_id n) else None)"







section \<open>Node coordinator (node.py, class Node; replication.py, class ReplicationManager)\<close>

text \<open>
  \<open>SQLParser.parse\<close> rests on the third-party \<open>sqlparse\<close> tokenizer, so the coordinator
  takes the parser as a parameter \<open>parse\<close>, which returns a plan or the exception raised.
  \<open>uuid4()\<close> is a supply \<open>uuid\<close> of row identifiers, of which the node has drawn
  \<open>uuid_drawn\<close>; INSERT draws one each time it runs. A replicated command is the dictionary
  \<open>{'type': 'sql', 'sql': sql}\<close>. The apply callback of the node acts on the executor
  and the identifier count. The shard ring and the cluster watcher take no part in a
  statement and are left out; exceptions are those derived from \<open>Exception\<close>.
\<close>

type_synonym node_world = "executor \<times> nat"
type_synonym raft_command = "(string \<times> string) list"

record node =
  self_node_id :: string
  query_executor :: executor
  uuid_drawn :: nat
  raft :: "(raft_command, node_world) RaftNode"

text \<open>\<open>str(e)\<close>; the string of a \<open>KeyError\<close> is the \<open>repr\<close> of its key.\<close>

fun exn_str :: "exn \<Rightarrow> string" where
  "exn_str (ValueError m) = m"
| "exn_str (KeyError k) = [CHR 0x27] @ k @ [CHR 0x27]"
| "exn_str (TypeError m) = m"
| "exn_str (OSError m) = m"
| "exn_str (IndexError m) = m"
| "exn_str (NotImplementedError m) = m"

definition run_executor ::
  "(nat \<Rightarrow> string) \<Rightarrow> parsed_query \<Rightarrow> node_world \<Rightarrow> (exn + result) \<times> node_world" where
  "run_executor uuid q w =
     (case execute (uuid (snd w)) q (fst w) of
        (res, ex') \<Rightarrow> (res, (ex', snd w + (if query_type q = ''INSERT'' then 1 else 0))))"

text \<open>\<open>_apply_replicated_command\<close> logs every exception and returns normally.\<close>

definition apply_replicated_command ::
  "(string \<Rightarrow> exn + parsed_query) \<Rightarrow> (nat \<Rightarrow> string) \<Rightarrow> raft_command \<Rightarrow> node_world
     \<Rightarrow> (exn + unit) \<times> node_world" where
  "apply_replicated_command parse uuid cmd w =
     (if map_of cmd ''type'' = Some ''sql''
      then (case map_of cmd ''sql'' of
              None \<Rightarrow> (Inr (), w)
            | Some sql \<Rightarrow>
                (if sql = [] then (Inr (), w)
                 else (case parse sql of
                         Inl x \<Rightarrow> (Inr (), w)
                       | Inr q \<Rightarrow> (Inr (), snd (run_executor uuid q w)))))
      else (Inr (), w))"

definition Node_init ::
  "(string \<Rightarrow> exn + parsed_query) \<Rightarrow> (nat \<Rightarrow> string) \<Rightarrow> string \<Rightarrow> string list \<Rightarrow> int \<Rightarrow> node" where
  "Node_init parse uuid nid cluster_nodes interval =
     \<lparr>self_node_id = nid, query_executor = new_executor interval, uuid_drawn = 0,
      raft = set_apply_callback (apply_replicated_command parse uuid)
               (RaftNode_init nid cluster_nodes)\<rparr>"

definition is_leader_of :: "node \<Rightarrow> bool" where
  "is_leader_of nd = raft_is_leader (raft nd)"

text \<open>\<open>ReplicationManager.replicate_write\<close>, on the node's state.\<close>

definition replicate_write :: "raft_command \<Rightarrow> node \<Rightarrow> (exn + bool) \<times> node" where
  "replicate_write operation nd =
     (if \<not> raft_is_leader (raft nd) then (Inr False, nd)
      else (case append_entry operation (raft nd) (query_executor nd, uuid_drawn nd) of
              (res, r', w') \<Rightarrow>
                (res, nd\<lparr>raft := r', query_executor := fst w', uuid_drawn := snd w'\<rparr>)))"

definition write_types :: "string list" where
  "write_types = [''INSERT'', ''UPDATE'', ''DELETE'', ''CREATE_TABLE'', ''DROP_TABLE'']"

text \<open>
  The body of the \<open>try\<close> block of \<open>execute_query\<close>, then the function with its handler
  \<open>except Exception\<close>. The function has the type of an operation that may raise; that it
  never does is a property proved of it.
\<close>

definition execute_query_body ::
  "(string \<Rightarrow> exn + parsed_query) \<Rightarrow> (nat \<Rightarrow> string) \<Rightarrow> string \<Rightarrow> node \<Rightarrow> (exn + result) \<times> node" where
  "execute_query_body parse uuid sql nd =
     (case parse sql of
        Inl x \<Rightarrow> (Inl x, nd)
      | Inr q \<Rightarrow>
          let run = (\<lambda>nd1.
                case run_executor uuid q (query_executor nd1, uuid_drawn nd1) of
                  (Inl x, w') \<Rightarrow> (Inl x, nd1\<lparr>query_executor := fst w', uuid_drawn := snd w'\<rparr>)
                | (Inr res, w') \<Rightarrow>
                    (Inr (res\<lparr>node_id := Some (self_node_id nd1),
                              is_leader := Some (raft_is_leader (raft nd1))\<rparr>),
                     nd1\<lparr>query_executor := fst w', uuid_drawn := snd w'\<rparr>))
          in if query_type q \<in> set write_types
             then (if \<not> raft_is_leader (raft nd)
                   then (Inr ((result_of ''error'' (Some ''Not the leader, cannot write''))
                                \<lparr>is_leader := Some False\<rparr>), nd)
                   else (case replicate_write [(''type'', ''sql''), (''sql'', sql)] nd of
                           (Inl x, nd1) \<Rightarrow> (Inl x, nd1)
                         | (Inr success, nd1) \<Rightarrow>
                             (if \<not> success
                              then (Inr (result_of ''error'' (Some ''Failed to replicate write'')), nd1)
                              else run nd1)))
             else run nd)"

definition execute_query ::
  "(string \<Rightarrow> exn + parsed_query) \<Rightarrow> (nat \<Rightarrow> string) \<Rightarrow> string \<Rightarrow> node \<Rightarrow> (exn + result) \<times> node" where
  "execute_query parse uuid sql nd =
     (case execute_query_body parse uuid sql nd of
        (Inl x, nd') \<Rightarrow>
          (Inr ((result_of ''error'' (Some (exn_str x)))\<lparr>node_id := Some (self_node_id nd)\<rparr>), nd')
      | (Inr res, nd') \<Rightarrow> (Inr res, nd'))"

section \<open>Value coercion and the WHERE clause (sql_parser.py, class SQLParser)\<close>

text \<open>
  Characters are code points below 256. \<open>is_space\<close> is \<open>str.isspace\<close> (also the regular
  expression class \<open>\s\<close>), \<open>is_word\<close> is the class \<open>\w\<close> (letters, digits and the
  underscore), \<open>is_digit\<close> the decimal digits that \<open>int()\<close> and \<open>float()\<close> accept.
  \<open>is_num_space\<close> is the whitespace that \<open>int()\<close> and \<open>float()\<close> skip at both ends: the
  whitespace of C and the characters 0x85 and 0xA0, which their conversion to ASCII turns
  into blanks; unlike \<open>str.strip\<close> they do not skip 0x1C to 0x1F.
\<close>

definition is_space :: "char \<Rightarrow> bool" where
  "is_space c = ((of_char c :: nat) \<in> set [9, 10, 11, 12, 13, 28, 29, 30, 31, 32, 133, 160])"

definition is_num_space :: "char \<Rightarrow> bool" where
  "is_num_space c = ((of_char c :: nat) \<in> set [9, 10, 11, 12, 13, 32, 133, 160])"

definition is_digit :: "char \<Rightarrow> bool" where
  "is_digit c = (48 \<le> (of_char c :: nat) \<and> (of_char c :: nat) \<le> 57)"

definition is_word :: "char \<Rightarrow> bool" where
  "is_word c =
     (let n = (of_char c :: nat)
      in (48 \<le> n \<and> n \<le> 57) \<or> (65 \<le> n \<and> n \<le> 90) \<or> n = 95 \<or> (97 \<le> n \<and> n \<le> 122)
         \<or> n \<in> set [170, 178, 179, 181, 185, 186, 188, 189, 190]
         \<or> (192 \<le> n \<and> n \<le> 214) \<or> (216 \<le> n \<and> n \<le> 246) \<or> 248 \<le> n)"

definition lower :: "char \<Rightarrow> char" where
  "lower c = (if 65 \<le> (of_char c :: nat) \<and> (of_char c :: nat) \<le> 90
              then char_of ((of_char c :: nat) + 32) else c)"

text \<open>\<open>s.strip()\<close> and \<open>s.strip(chars)\<close>.\<close>

definition strip_chars :: "(char \<Rightarrow> bool) \<Rightarrow> string \<Rightarrow> string" where
  "strip_chars p s = rev (dropWhile p (rev (dropWhile p s)))"

definition py_strip :: "string \<Rightarrow> string" where
  "py_strip s = strip_chars is_space s"

definition is_quote :: "char \<Rightarrow> bool" where
  "is_quote c = (c = CHR 0x27 \<or> c = CHR 0x22)"

definition unquote :: "string \<Rightarrow> string" where
  "unquote s = strip_chars is_quote s"

text \<open>
  A run of digits in which single underscores may separate digits, as \<open>int()\<close> and
  \<open>float()\<close> read it. \<open>digits_tail\<close> reads what follows a digit.
\<close>

fun digits_tail :: "string \<Rightarrow> bool" where
  "digits_tail [] = True"
| "digits_tail (c # cs) =
     (if is_digit c then digits_tail cs
      else if c = CHR ''_'' then (case cs of [] \<Rightarrow> False | d # ds \<Rightarrow> is_digit d \<and> digits_tail ds)
      else False)"

definition digitpart :: "string \<Rightarrow> bool" where
  "digitpart s = (case s of [] \<Rightarrow> False | c # cs \<Rightarrow> is_digit c \<and> digits_tail cs)"

definition digits_value :: "string \<Rightarrow> int" where
  "digits_value s = foldl (\<lambda>a d. 10 * a + (int (of_char d) - 48)) 0 (filter is_digit s)"

text \<open>
  \<open>int(s)\<close> in base 10: surrounding whitespace, an optional sign, a digit run. \<open>None\<close> is
  \<open>ValueError\<close>, which \<open>int()\<close> also raises for more than \<open>int_max_str_digits\<close> digits
  (4300 unless the interpreter is configured otherwise).
\<close>

definition int_max_str_digits :: nat where
  "int_max_str_digits = 4300"

definition py_int :: "string \<Rightarrow> int option" where
  "py_int s =
     (case strip_chars is_num_space s of
        [] \<Rightarrow> None
      | c # cs \<Rightarrow>
          let body = (if c = CHR ''-'' \<or> c = CHR ''+'' then cs else c # cs)
          in if digitpart body \<and> length (filter is_digit body) \<le> int_max_str_digits
             then Some (if c = CHR ''-'' then - digits_value body else digits_value body)
             else None)"

text \<open>
  The double nearest to a decimal number, ties to the even mantissa, as \<open>float()\<close> reads a
  literal. \<open>double_of_ratio neg N D\<close> rounds \<open>N / D\<close>: \<open>e\<close> is the binary exponent of the
  quotient, \<open>q\<close> the exponent of the last place of its 53-bit mantissa (not below that of
  the subnormal numbers), \<open>m\<close> the mantissa; a result of \<open>2 ^ 1024\<close> or more is an
  infinity. \<open>double_of_decimal neg d k\<close> rounds \<open>d * 10 ^ k\<close>.
\<close>

fun bitlen :: "nat \<Rightarrow> nat" where
  "bitlen n = (if n = 0 then 0 else Suc (bitlen (n div 2)))"

definition round_half_even :: "int \<Rightarrow> int \<Rightarrow> int" where
  "round_half_even num den =
     (let m = num div den; r = num mod den
      in if 2 * r > den \<or> (2 * r = den \<and> odd m) then m + 1 else m)"

definition double_of_ratio :: "bool \<Rightarrow> nat \<Rightarrow> nat \<Rightarrow> pyfloat" where
  "double_of_ratio neg N D =
     (let zero = (if neg then NegZero else Float 0 0)
      in if N = 0 then zero
         else
           let e0 = int (bitlen N) - int (bitlen D);
               e = (if (if 0 \<le> e0 then D * 2 ^ nat e0 \<le> N else D \<le> N * 2 ^ nat (- e0))
                    then e0 else e0 - 1);
               q = max e (- 1022) - 52;
               m = (if 0 \<le> q then round_half_even (int N) (int D * 2 ^ nat q)
                    else round_half_even (int N * 2 ^ nat (- q)) (int D))
           in if m = 0 then zero
              else if 971 < q \<or> (q = 971 \<and> 2 ^ 53 \<le> m) then (if neg then NegInf else PosInf)
              else (case reduce (if neg then - m else m) q of (m', e') \<Rightarrow> Float m' e'))"

definition double_of_decimal :: "bool \<Rightarrow> nat \<Rightarrow> int \<Rightarrow> pyfloat" where
  "double_of_decimal neg d k =
     (if 0 \<le> k then double_of_ratio neg (d * 10 ^ nat k) 1
      else double_of_ratio neg d (10 ^ nat (- k)))"

text \<open>
  The strings \<open>float(s)\<close> accepts: surrounding whitespace, an optional sign, then
  \<open>inf\<close>, \<open>infinity\<close> or \<open>nan\<close> in any case, or a decimal number with an optional
  fraction and exponent. \<open>None\<close> is \<open>ValueError\<close>.
\<close>

definition split_at :: "(char \<Rightarrow> bool) \<Rightarrow> string \<Rightarrow> string \<times> string option" where
  "split_at p s = (case dropWhile (\<lambda>c. \<not> p c) s of
                     [] \<Rightarrow> (s, None)
                   | _ # rest \<Rightarrow> (takeWhile (\<lambda>c. \<not> p c) s, Some rest))"

definition exponent_ok :: "string \<Rightarrow> bool" where
  "exponent_ok s = (case s of
                      [] \<Rightarrow> False
                    | c # cs \<Rightarrow> if c = CHR ''-'' \<or> c = CHR ''+'' then digitpart cs
                                else digitpart (c # cs))"

definition exponent_value :: "string \<Rightarrow> int" where
  "exponent_value s = (case s of
                         [] \<Rightarrow> 0
                       | c # cs \<Rightarrow> if c = CHR ''-'' then - digits_value cs else digits_value s)"

definition mantissa_ok :: "string \<Rightarrow> bool" where
  "mantissa_ok s =
     (case split_at (\<lambda>c. c = CHR ''.'') s of
        (ip, None) \<Rightarrow> digitpart ip
      | (ip, Some fp) \<Rightarrow> (digitpart ip \<and> (fp = [] \<or> digitpart fp)) \<or> (ip = [] \<and> digitpart fp))"

definition decimal_value :: "bool \<Rightarrow> string \<Rightarrow> string option \<Rightarrow> pyfloat" where
  "decimal_value neg m e =
     (case split_at (\<lambda>c. c = CHR ''.'') m of
        (ip, fo) \<Rightarrow>
          let fp = (case fo of None \<Rightarrow> [] | Some f \<Rightarrow> f)
          in double_of_decimal neg (nat (digits_value (ip @ fp)))
               ((case e of None \<Rightarrow> 0 | Some x \<Rightarrow> exponent_value x)
                  - int (length (filter is_digit fp))))"

definition unsigned_float :: "bool \<Rightarrow> string \<Rightarrow> pyfloat option" where
  "unsigned_float neg s =
     (if map lower s \<in> set [''inf'', ''infinity''] then Some (if neg then NegInf else PosInf)
      else if map lower s = ''nan'' then Some NaN
      else (case split_at (\<lambda>c. c = CHR ''e'' \<or> c = CHR ''E'') s of
              (m, e) \<Rightarrow>
                if mantissa_ok m \<and> (case e of None \<Rightarrow> True | Some x \<Rightarrow> exponent_ok x)
                then Some (decimal_value neg m e) else None))"

definition py_float :: "string \<Rightarrow> pyfloat option" where
  "py_float s =
     (case strip_chars is_num_space s of
        [] \<Rightarrow> None
      | c # cs \<Rightarrow> if c = CHR ''-'' then unsigned_float True cs
                  else if c = CHR ''+'' then unsigned_float False cs
                  else unsigned_float False (c # cs))"

text \<open>\<open>_convert_value\<close>: try \<open>int\<close>, then \<open>float\<close>, else keep the string.\<close>

definition convert_value :: "string \<Rightarrow> pyval" where
  "convert_value v =
     (case py_int v of
        Some i \<Rightarrow> PInt i
      | None \<Rightarrow> (case py_float v of Some f \<Rightarrow> PFloat f | None \<Rightarrow> PStr v))"

text \<open>
  The three places that read a value token apply the same expression to it,
  \<open>self._convert_value(tok.strip().strip("'\""))\<close>.
\<close>

definition coerce_token :: "string \<Rightarrow> pyval" where
  "coerce_token tok = convert_value (unquote (py_strip tok))"

text \<open>\<open>s.split(',')\<close> and \<open>s.split('=', 1)\<close>.\<close>

fun split_on :: "char \<Rightarrow> string \<Rightarrow> string \<Rightarrow> string list" where
  "split_on sep cur [] = [rev cur]"
| "split_on sep cur (c # cs) =
     (if c = sep then rev cur # split_on sep [] cs else split_on sep (c # cur) cs)"

definition py_split :: "char \<Rightarrow> string \<Rightarrow> string list" where
  "py_split sep s = split_on sep [] s"

text \<open>
  The body of \<open>_parse_insert\<close> from the two groups of its regular expression, the column
  list and the value list; and \<open>_parse_set_clause\<close>.
\<close>

definition parse_insert_values :: "string \<Rightarrow> string \<Rightarrow> row" where
  "parse_insert_values columns_str values_str =
     fold (\<lambda>(col, tok). AList.update col (coerce_token tok))
       (zip (map py_strip (py_split CHR '','' columns_str)) (py_split CHR '','' values_str)) []"

definition parse_set_clause :: "string \<Rightarrow> row" where
  "parse_set_clause set_str =
     fold (\<lambda>assignment.
             case split_at (\<lambda>c. c = CHR ''='') assignment of
               (col, None) \<Rightarrow> (\<lambda>d. d)
             | (col, Some tok) \<Rightarrow> AList.update (py_strip col) (coerce_token tok))
       (py_split CHR '','' set_str) []"

text \<open>
  \<open>re.search(r'(\w+)\s*=\s*(.+)', part)\<close>: the leftmost run of word characters that is
  followed, after optional whitespace, by \<open>=\<close>, optional whitespace and at least one
  character other than a newline; the groups are that run and the rest of the line.
  \<open>where_scan w s\<close> has read the word characters \<open>w\<close> (reversed) just before \<open>s\<close>.
\<close>

definition value_group :: "string \<Rightarrow> string option" where
  "value_group s =
     (case dropWhile is_space s of
        [] \<Rightarrow> (case filter (\<lambda>c. c \<noteq> CHR 0x0A) (takeWhile is_space s) of
                 [] \<Rightarrow> None
               | c # cs \<Rightarrow> Some [last (c # cs)])
      | c # cs \<Rightarrow> Some (takeWhile (\<lambda>c. c \<noteq> CHR 0x0A) (c # cs)))"

definition after_word :: "string \<Rightarrow> string option" where
  "after_word s = (case dropWhile is_space s of
                     [] \<Rightarrow> None
                   | c # cs \<Rightarrow> if c = CHR ''='' then value_group cs else None)"

fun where_scan :: "string \<Rightarrow> string \<Rightarrow> (string \<times> string) option" where
  "where_scan w [] = None"
| "where_scan w (c # cs) =
     (if is_word c then where_scan (c # w) cs
      else if w \<noteq> []
      then (case after_word (c # cs) of
              Some g \<Rightarrow> Some (rev w, g)
            | None \<Rightarrow> where_scan [] cs)
      else where_scan [] cs)"

definition where_match :: "string \<Rightarrow> (string \<times> string) option" where
  "where_match s = where_scan [] s"

text \<open>
  \<open>re.split(r'\s+AND\s+', s, flags=re.IGNORECASE)\<close>. \<open>and_match s\<close> is the number of
  characters the separator takes at the start of \<open>s\<close>; \<open>split_and cur skip s\<close> has the
  current part \<open>cur\<close> (reversed) and still skips \<open>skip\<close> characters of a separator.
\<close>

definition and_match :: "string \<Rightarrow> nat option" where
  "and_match s =
     (let ws1 = takeWhile is_space s; r1 = dropWhile is_space s;
          ws2 = takeWhile is_space (drop 3 r1)
      in if ws1 \<noteq> [] \<and> map lower (take 3 r1) = ''and'' \<and> ws2 \<noteq> []
         then Some (length ws1 + 3 + length ws2) else None)"

fun split_and :: "string \<Rightarrow> nat \<Rightarrow> string \<Rightarrow> string list" where
  "split_and cur skip [] = [rev cur]"
| "split_and cur (Suc k) (c # cs) = split_and cur k cs"
| "split_and cur 0 (c # cs) =
     (case and_match (c # cs) of
        Some n \<Rightarrow> rev cur # split_and [] (n - 1) cs
      | None \<Rightarrow> split_and (c # cur) 0 cs)"

text \<open>\<open>s.replace('WHERE', '', 1)\<close>: the first occurrence of the upper-case word is removed.\<close>

fun remove_first :: "string \<Rightarrow> string \<Rightarrow> string" where
  "remove_first pat [] = []"
| "remove_first pat (c # cs) =
     (if take (length pat) (c # cs) = pat then drop (length pat) (c # cs)
      else c # remove_first pat cs)"

text \<open>One step of the loop of \<open>_parse_where\<close>, and the function on the text of the clause.\<close>

definition where_part :: "string \<Rightarrow> row \<Rightarrow> row" where
  "where_part part conds =
     (case where_match (py_strip part) of
        None \<Rightarrow> conds
      | Some (column, v) \<Rightarrow> AList.update (py_strip column) (coerce_token v) conds)"

definition parse_where :: "string \<Rightarrow> row" where
  "parse_where where_clause =
     fold where_part (split_and [] 0 (py_strip (remove_first ''WHERE'' where_clause))) []"

text \<open>
  The parts that the loop of \<open>_parse_where\<close> visits, and the assignment
  \<open>query.conditions = self._parse_where(token)\<close> of \<open>_parse_select\<close>, \<open>_parse_update\<close> and
  \<open>_parse_delete\<close> on the text of the WHERE token. \<open>has_entry\<close>: the part yields an entry of
  the conditions.
\<close>

definition where_parts :: "string \<Rightarrow> string list" where
  "where_parts where_clause = split_and [] 0 (py_strip (remove_first ''WHERE'' where_clause))"

definition with_where :: "string \<Rightarrow> parsed_query \<Rightarrow> parsed_query" where
  "with_where where_clause q = q\<lparr>conditions := parse_where where_clause\<rparr>"

definition has_entry :: "string \<Rightarrow> bool" where
  "has_entry part = (where_match (py_strip part) \<noteq> None)"

section \<open>The predicates that yield a condition\<close>

text \<open>
  The regular expression \<open>(\w+)\s*=\s*(.+)\<close> read as a description of the text it finds:
  \<open>equality_at s\<close> says that \<open>s\<close> holds a run of word characters followed by optional
  whitespace, \<open>=\<close>, and a rest in which a character other than a newline follows optional
  whitespace. \<open>word_before pre\<close>: the last character of \<open>pre\<close> that is not whitespace is a
  word character; \<open>no_word_before_eq s\<close>: no \<open>=\<close> of \<open>s\<close> has a word before it, as when every
  \<open>=\<close> belongs to \<open>!=\<close>, \<open>>=\<close>, \<open><=\<close> or follows another \<open>=\<close>.
\<close>

definition can_start_value :: "string \<Rightarrow> bool" where
  "can_start_value rest =
     (\<exists>ws c tl. rest = ws @ c # tl \<and> (\<forall>x \<in> set ws. is_space x) \<and> c \<noteq> CHR 0x0A)"

definition equality_at :: "string \<Rightarrow> bool" where
  "equality_at s =
     (\<exists>pre w ws rest. s = pre @ w @ ws @ CHR ''='' # rest \<and> w \<noteq> [] \<and> (\<forall>c \<in> set w. is_word c)
        \<and> (\<forall>c \<in> set ws. is_space c) \<and> can_start_value rest)"

definition word_before :: "string \<Rightarrow> bool" where
  "word_before pre = (case dropWhile is_space (rev pre) of [] \<Rightarrow> False | c # _ \<Rightarrow> is_word c)"

definition no_word_before_eq :: "string \<Rightarrow> bool" where
  "no_word_before_eq s = (\<forall>i < length s. s ! i = CHR ''='' \<longrightarrow> \<not> word_before (take i s))"

section \<open>The order that ORDER BY asks for\<close>







text \<open>A table of three rows and a SELECT ordered by \<open>a\<close>, then by \<open>b\<close> descending.\<close>

definition three_rows :: executor where
  "three_rows =
     (let ex1 = snd (execute [] ((ParsedQuery ''CREATE_TABLE'')
                     \<lparr>table := ''t'', schema := [(''a'', ''INTEGER''), (''b'', ''FLOAT'')]\<rparr>)
                   (new_executor 1000));
          ex2 = snd (execute ''k1'' ((ParsedQuery ''INSERT'')
                     \<lparr>table := ''t'', vals := [(''a'', PInt 1), (''b'', PInt 1)]\<rparr>) ex1);
          ex3 = snd (execute ''k2'' ((ParsedQuery ''INSERT'')
                     \<lparr>table := ''t'', vals := [(''a'', PInt 0), (''b'', PInt 2)]\<rparr>) ex2)
      in snd (execute ''k3'' ((ParsedQuery ''INSERT'')
                     \<lparr>table := ''t'', vals := [(''a'', PInt 1), (''b'', PFloat (Float 3 (- 1)))]\<rparr>) ex3))"


section \<open>Unfolding rules for evaluation\<close>

lemmas storage_defs = create_table_def new_engine_def open_engine_def recover_def
  read_all_entries_def wal_append_def put_def get_def drop_table_def delete_def scan_def
  tables_getitem_def check_snapshot_def

declare reduce.simps [simp del]

declare bitlen.simps [simp del]

lemmas value_defs = py_eq_def py_lt_def py_comparable_def py_key_def scaled_def

lemmas index_defs = create_index_def indexes_get_def insert_row_def delete_row_def
  find_best_index_def score_def bucket_def bucket_discard_def set_add_def set_discard_def
  drop_index_def get_indexes_for_table_def index_key_of_def lookup_call_def class_name_def
  value_defs

lemmas exec_defs = execute_def execute_create_table_def execute_insert_def
  execute_create_index_def execute_select_def execute_update_def execute_delete_def
  execute_drop_table_def execute_drop_index_def candidate_rows_def apply_order_by_def
  apply_limit_def matches_conditions_def with_key_def row_get_def ParsedQuery_def
  new_executor_def rows_of_def result_of_def dict_merge_def

lemmas parser_defs = parse_insert_values_def parse_set_clause_def coerce_token_def
  convert_value_def py_int_def py_float_def unsigned_float_def decimal_value_def
  mantissa_ok_def exponent_ok_def exponent_value_def split_at_def digitpart_def
  digits_value_def py_split_def py_strip_def unquote_def strip_chars_def is_space_def
  is_num_space_def is_quote_def is_digit_def lower_def int_max_str_digits_def

lemmas float_defs = double_of_decimal_def double_of_ratio_def round_half_even_def
  bitlen.simps reduce.simps Let_def

lemmas node_defs = execute_query_def execute_query_body_def Node_init_def run_executor_def
  replicate_write_def write_types_def raft_is_leader_def is_leader_of_def
  set_apply_callback_def RaftNode_init_def

section \<open>Properties of the storage engine\<close>

text \<open>
  C2. The claim: every mutating storage operation appends to the WAL before it touches
  \<open>schemas\<close> and \<open>tables\<close>, so a failed append returns an error and leaves the in-memory
  state unchanged. The code assigns first and appends second in all four operations: on a
  log that cannot be written, \<open>create_table\<close> raises \<open>OSError\<close> with the new table already
  in \<open>schemas\<close> and \<open>tables\<close>, \<open>put\<close> leaves the row stored, \<open>delete\<close> leaves it removed and
  \<open>drop_table\<close> leaves the table gone.
\<close>

theorem wal_failure_leaves_mutation:
  "create_table ''t'' [(''id'', ''INTEGER'')] (new_engine False 1000)
     = (Inl (OSError ''fsync failed''),
        (new_engine False 1000)\<lparr>schemas := [(''t'', [(''id'', ''INTEGER'')])],
                                 tables := [(''t'', [])]\<rparr>)
   \<and> (let e = (snd (create_table ''t'' [(''id'', ''INTEGER'')] (new_engine True 1000)))
               \<lparr>wal := \<lparr>entries = [], log_index = 1, healthy = False\<rparr>\<rparr>
      in fst (put ''t'' ''k'' [(''id'', PInt 1)] e) = Inl (OSError ''fsync failed'')
         \<and> get ''t'' ''k'' (snd (put ''t'' ''k'' [(''id'', PInt 1)] e)) = Some [(''id'', PInt 1)]
         \<and> get ''t'' ''k'' e = None
         \<and> fst (drop_table ''t'' e) = Inl (OSError ''fsync failed'')
         \<and> schemas (snd (drop_table ''t'' e)) = []
         \<and> schemas e = [(''t'', [(''id'', ''INTEGER'')])])"
  by (simp add: create_table_def new_engine_def open_engine_def recover_def read_all_entries_def
      wal_append_def put_def get_def drop_table_def tables_getitem_def check_snapshot_def
      Let_def)

text \<open>
  C3. The claim: after any sequence of storage operations from an empty engine, re-opening
  the engine over the same directories yields \<open>tables\<close> and \<open>schemas\<close> equal to those of
  the running engine. \<open>create_table\<close> stores an empty row map under the table, while the
  CREATE\_TABLE branch of the replay assigns the schema only: after the single operation
  \<open>create_table('t', {'id': 'INTEGER'})\<close> and no snapshot, the running engine has
  \<open>tables = {'t': {}}\<close> and the re-opened one has \<open>tables = {}\<close>. The difference shows:
  \<open>drop_table('t')\<close> succeeds on the running engine and raises \<open>KeyError\<close> on the re-opened
  one.
\<close>

theorem recovery_loses_empty_table:
  "(let direct = apply_ops [CreateTable ''t'' [(''id'', ''INTEGER'')]] (new_engine True 1000);
        restarted = reopen direct
    in snapshot_file direct = None
       \<and> schemas restarted = schemas direct
       \<and> tables direct = [(''t'', [])]
       \<and> tables restarted = []
       \<and> fst (drop_table ''t'' direct) = Inr ()
       \<and> fst (drop_table ''t'' restarted) = Inl (KeyError ''t''))"
  by (simp add: apply_ops_def create_table_def new_engine_def open_engine_def recover_def
      read_all_entries_def wal_append_def drop_table_def check_snapshot_def reopen_def
      replay_entry_def Let_def)

section \<open>Properties of the query executor\<close>

text \<open>
  C1. The claim: a SELECT returns exactly the rows of the table that satisfy every
  equality condition, whether the candidates come from a full scan or from the index that
  \<open>find_best_index\<close> chooses. \<open>find_best_index\<close> accepts an index as soon as one of its
  columns is named in the conditions, and \<open>HashIndex.lookup\<close> builds its tuple with \<open>None\<close>
  for every column the conditions do not name. With a hash index on \<open>(a, b)\<close> and the row
  \<open>{a: 1, b: 2}\<close>, \<open>SELECT * FROM t WHERE a = 1\<close> looks up \<open>(1, None)\<close> and returns no row,
  although the row is stored and matches; before the index is created the same SELECT
  returns it by full scan.
\<close>

theorem partial_hash_index_misses_rows:
  "(let ex1 = snd (execute [] ((ParsedQuery ''CREATE_TABLE'')
                     \<lparr>table := ''t'', schema := [(''a'', ''INTEGER''), (''b'', ''INTEGER'')]\<rparr>)
                   (new_executor 1000));
        ex2 = snd (execute ''k1'' ((ParsedQuery ''INSERT'')
                     \<lparr>table := ''t'', vals := [(''a'', PInt 1), (''b'', PInt 2)]\<rparr>) ex1);
        ex3 = snd (execute [] ((ParsedQuery ''CREATE_INDEX'')
                     \<lparr>table := ''t'', index_name := ''idx'', index_columns := [''a'', ''b''],
                       index_type := ''hash''\<rparr>) ex2);
        sel = (ParsedQuery ''SELECT'')
                \<lparr>table := ''t'', columns := [''*''], conditions := [(''a'', PInt 1)]\<rparr>
    in get ''t'' ''k1'' (storage ex3) = Some [(''a'', PInt 1), (''b'', PInt 2)]
       \<and> matches_conditions [(''a'', PInt 1), (''b'', PInt 2)] (conditions sel)
       \<and> rows_of (execute [] sel ex2)
           = Some [[(''a'', PInt 1), (''b'', PInt 2), (''_key'', PStr ''k1'')]]
       \<and> rows_of (execute [] sel ex3) = Some [])"
  by (simp add: storage_defs index_defs exec_defs Let_def)

theorem partial_hash_index_misses_rows_witness:
  "\<exists>ex k r.
      get ''t'' k (storage ex) = Some r
      \<and> matches_conditions r (conditions ((ParsedQuery ''SELECT'')
            \<lparr>table := ''t'', columns := [''*''], conditions := [(''a'', PInt 1)]\<rparr>))
      \<and> rows_of (execute [] ((ParsedQuery ''SELECT'')
            \<lparr>table := ''t'', columns := [''*''], conditions := [(''a'', PInt 1)]\<rparr>) ex) = Some []"
  using partial_hash_index_misses_rows unfolding Let_def by blast

subsection \<open>Sorting\<close>

lemma str_less_irrefl: "\<not> str_less a a"
  by (induction a) auto































section \<open>Properties of the consensus log\<close>

declare apply_committed_entries.simps [simp del]










section \<open>Properties of the node coordinator\<close>

lemma status_result_of [simp]: "status (result_of st msg) = st"
  by (simp add: result_of_def)











lemma execute_select_unchanged: "snd (execute_select q ex) = ex"
  by (simp add: execute_select_def Let_def split: sum.splits)

text \<open>
  C6. The claim: every write plan (INSERT, UPDATE, DELETE, CREATE, DROP) run through the
  coordinator on a node that is not the leader returns an error carrying
  \<open>is_leader = False\<close> and mutates nothing, and only SELECT bypasses the leadership check.
  The check of \<open>execute_query\<close> lists INSERT, UPDATE, DELETE, CREATE\_TABLE and
  DROP\_TABLE; CREATE\_INDEX and DROP\_INDEX are not in the list, run on a follower and
  change the index manager. What holds: for the five listed kinds the result on a node
  that is not the leader is the not-leader error and the node is unchanged; a plan of any
  other kind, SELECT, CREATE\_INDEX and DROP\_INDEX among them, is handed to the executor
  whatever the role of the node, and its outcome is returned with the node id and the
  role; a SELECT leaves the node unchanged.
\<close>

theorem non_leader_write_rejected:
  assumes "parse sql = Inr q"
  shows "(query_type q \<in> {''INSERT'', ''UPDATE'', ''DELETE'', ''CREATE_TABLE'', ''DROP_TABLE''}
            \<longrightarrow> \<not> is_leader_of nd \<longrightarrow>
          execute_query parse uuid sql nd
            = (Inr ((result_of ''error'' (Some ''Not the leader, cannot write''))
                      \<lparr>is_leader := Some False\<rparr>), nd))
       \<and> (query_type q \<notin> {''INSERT'', ''UPDATE'', ''DELETE'', ''CREATE_TABLE'', ''DROP_TABLE''}
            \<longrightarrow>
          execute_query parse uuid sql nd
            = (case run_executor uuid q (query_executor nd, uuid_drawn nd) of
                 (Inl x, w') \<Rightarrow>
                   (Inr ((result_of ''error'' (Some (exn_str x)))
                           \<lparr>node_id := Some (self_node_id nd)\<rparr>),
                    nd\<lparr>query_executor := fst w', uuid_drawn := snd w'\<rparr>)
               | (Inr res, w') \<Rightarrow>
                   (Inr (res\<lparr>node_id := Some (self_node_id nd),
                              is_leader := Some (is_leader_of nd)\<rparr>),
                    nd\<lparr>query_executor := fst w', uuid_drawn := snd w'\<rparr>)))
       \<and> ({''SELECT'', ''CREATE_INDEX'', ''DROP_INDEX''}
             \<inter> {''INSERT'', ''UPDATE'', ''DELETE'', ''CREATE_TABLE'', ''DROP_TABLE''} = {})
       \<and> (query_type q = ''SELECT'' \<longrightarrow> snd (execute_query parse uuid sql nd) = nd)"
proof (intro conjI impI)
  assume "query_type q \<in> {''INSERT'', ''UPDATE'', ''DELETE'', ''CREATE_TABLE'', ''DROP_TABLE''}"
    and "\<not> is_leader_of nd"
  with assms show "execute_query parse uuid sql nd
            = (Inr ((result_of ''error'' (Some ''Not the leader, cannot write''))
                      \<lparr>is_leader := Some False\<rparr>), nd)"
    by (simp add: execute_query_def execute_query_body_def is_leader_of_def write_types_def Let_def)
next
  assume "query_type q \<notin> {''INSERT'', ''UPDATE'', ''DELETE'', ''CREATE_TABLE'', ''DROP_TABLE''}"
  with assms show "execute_query parse uuid sql nd
            = (case run_executor uuid q (query_executor nd, uuid_drawn nd) of
                 (Inl x, w') \<Rightarrow>
                   (Inr ((result_of ''error'' (Some (exn_str x)))
                           \<lparr>node_id := Some (self_node_id nd)\<rparr>),
                    nd\<lparr>query_executor := fst w', uuid_drawn := snd w'\<rparr>)
               | (Inr res, w') \<Rightarrow>
                   (Inr (res\<lparr>node_id := Some (self_node_id nd),
                              is_leader := Some (is_leader_of nd)\<rparr>),
                    nd\<lparr>query_executor := fst w', uuid_drawn := snd w'\<rparr>))"
    by (simp add: execute_query_def execute_query_body_def is_leader_of_def write_types_def Let_def
        split: prod.splits sum.splits)
next
  show "{''SELECT'', ''CREATE_INDEX'', ''DROP_INDEX''}
          \<inter> {''INSERT'', ''UPDATE'', ''DELETE'', ''CREATE_TABLE'', ''DROP_TABLE''} = {}"
    by simp
next
  assume sel: "query_type q = ''SELECT''"
  have "snd (run_executor uuid q (query_executor nd, uuid_drawn nd)) = (query_executor nd, uuid_drawn nd)"
    using sel execute_select_unchanged[of q "query_executor nd"]
    by (auto simp: run_executor_def execute_def split: prod.splits)
  with assms sel show "snd (execute_query parse uuid sql nd) = nd"
    by (auto simp: execute_query_def execute_query_body_def write_types_def Let_def
        split: prod.splits sum.splits)
qed

theorem non_leader_write_rejected_witness:
  "(let q = (ParsedQuery ''INSERT'')\<lparr>table := ''t'', vals := [(''a'', PInt 1)]\<rparr>;
        nd = Node_init (\<lambda>_. Inr q) (\<lambda>_. ''k'') ''n1'' [''n1''] 1000
    in execute_query (\<lambda>_. Inr q) (\<lambda>_. ''k'') ''INSERT INTO t (a) VALUES (1)'' nd
         = (Inr ((result_of ''error'' (Some ''Not the leader, cannot write''))
                   \<lparr>is_leader := Some False\<rparr>), nd))
   \<and> (let q = (ParsedQuery ''SELECT'')\<lparr>table := ''t'', columns := [''*'']\<rparr>;
        nd = Node_init (\<lambda>_. Inr q) (\<lambda>_. ''k'') ''n1'' [''n1''] 1000
    in execute_query (\<lambda>_. Inr q) (\<lambda>_. ''k'') ''SELECT * FROM t'' nd
         = (Inr ((result_of ''success'' None)
                   \<lparr>rows := Some [], row_count := Some 0, node_id := Some ''n1'',
                     is_leader := Some False\<rparr>), nd))"
proof -
  let ?q = "(ParsedQuery ''INSERT'')\<lparr>table := ''t'', vals := [(''a'', PInt 1)]\<rparr>"
  let ?nd = "Node_init (\<lambda>_. Inr ?q) (\<lambda>_. ''k'') ''n1'' [''n1''] 1000"
  have h2: "query_type ?q = ''INSERT''" by (simp add: ParsedQuery_def)
  have h3: "\<not> is_leader_of ?nd"
    by (simp add: is_leader_of_def raft_is_leader_def Node_init_def set_apply_callback_def
        RaftNode_init_def)
  have a: "execute_query (\<lambda>_. Inr ?q) (\<lambda>_. ''k'') ''INSERT INTO t (a) VALUES (1)'' ?nd
         = (Inr ((result_of ''error'' (Some ''Not the leader, cannot write''))
                   \<lparr>is_leader := Some False\<rparr>), ?nd)"
    using non_leader_write_rejected[where parse = "\<lambda>_. Inr ?q" and q = ?q and nd = ?nd
      and sql = "''INSERT INTO t (a) VALUES (1)''" and uuid = "\<lambda>_. ''k''"] h3
    by (simp add: h2)
  let ?s = "(ParsedQuery ''SELECT'')\<lparr>table := ''t'', columns := [''*'']\<rparr>"
  let ?nd2 = "Node_init (\<lambda>_. Inr ?s) (\<lambda>_. ''k'') ''n1'' [''n1''] 1000"
  have g2: "query_type ?s = ''SELECT''" by (simp add: ParsedQuery_def)
  have g3: "run_executor (\<lambda>_. ''k'') ?s (query_executor ?nd2, uuid_drawn ?nd2)
              = (Inr ((result_of ''success'' None)\<lparr>rows := Some [], row_count := Some 0\<rparr>),
                 (query_executor ?nd2, uuid_drawn ?nd2))"
    by (simp add: node_defs storage_defs index_defs exec_defs Let_def)
  have g4: "is_leader_of ?nd2 = False" "self_node_id ?nd2 = ''n1''"
    by (simp_all add: is_leader_of_def raft_is_leader_def Node_init_def set_apply_callback_def
        RaftNode_init_def)
  have b: "execute_query (\<lambda>_. Inr ?s) (\<lambda>_. ''k'') ''SELECT * FROM t'' ?nd2
         = (Inr ((result_of ''success'' None)
                   \<lparr>rows := Some [], row_count := Some 0, node_id := Some ''n1'',
                     is_leader := Some False\<rparr>), ?nd2)"
    using non_leader_write_rejected[where parse = "\<lambda>_. Inr ?s" and q = ?s and nd = ?nd2
      and sql = "''SELECT * FROM t''" and uuid = "\<lambda>_. ''k''"]
    by (simp add: g2 g3 g4)
  from a b show ?thesis by (simp add: Let_def)
qed

text \<open>
  On a node that is not the leader, CREATE INDEX registers an index and DROP INDEX removes
  it again: both run and both change the index manager.
\<close>

theorem create_index_bypasses_leader_check:
  "(let c = (ParsedQuery ''CREATE_INDEX'')
              \<lparr>table := ''t'', index_name := ''idx'', index_columns := [''a''],
                index_type := ''hash''\<rparr>;
        d = (ParsedQuery ''DROP_INDEX'')\<lparr>table := ''t'', index_name := ''idx''\<rparr>;
        nd = Node_init (\<lambda>_. Inr c) (\<lambda>_. ''k'') ''n1'' [''n1''] 1000;
        out1 = execute_query (\<lambda>_. Inr c) (\<lambda>_. ''k'') ''CREATE INDEX idx ON t (a) USING HASH'' nd;
        out2 = execute_query (\<lambda>_. Inr d) (\<lambda>_. ''k'') ''DROP INDEX idx ON t'' (snd out1)
    in \<not> is_leader_of nd \<and> \<not> is_leader_of (snd out1)
       \<and> fst out1 = Inr ((result_of ''success'' (Some ''Index idx created on t''))
                           \<lparr>rows_affected := Some 0, node_id := Some ''n1'',
                             is_leader := Some False\<rparr>)
       \<and> index_manager (query_executor nd) = []
       \<and> index_manager (query_executor (snd out1)) = [(''t'', [(''idx'', HashIndex ''t'' [''a''] [])])]
       \<and> fst out2 = Inr ((result_of ''success'' (Some ''Index idx dropped''))
                           \<lparr>rows_affected := Some 0, node_id := Some ''n1'',
                             is_leader := Some False\<rparr>)
       \<and> index_manager (query_executor (snd out2)) = [(''t'', [])])"
  by (simp add: node_defs storage_defs index_defs exec_defs Let_def)



section \<open>Properties of the parser\<close>

text \<open>
  C5. The claim: a bareword value token is coerced to an integer, else to a float, else
  kept as a string, while a quoted token is stripped of its quotes and always kept as a
  string, so that \<open>'123'\<close> yields the string \<open>"123"\<close>. INSERT, SET and WHERE all strip
  whitespace and quote characters from the token and then pass what is left to
  \<open>_convert_value\<close>, which cannot know that quotes were there. The quoted token \<open>'123'\<close>
  becomes the integer 123 on all three paths, exactly as the bareword \<open>123\<close> does, and
  the quoted \<open>'1.5'\<close> becomes a float; a quoted token stays a string only when its text is
  no number, as \<open>'Alice'\<close>.
\<close>

theorem quoted_digits_become_integer:
  "parse_insert_values ''zip'' ([CHR 0x27] @ ''123'' @ [CHR 0x27]) = [(''zip'', PInt 123)]
   \<and> parse_insert_values ''zip'' ([CHR 0x22] @ ''123'' @ [CHR 0x22]) = [(''zip'', PInt 123)]
   \<and> parse_insert_values ''zip'' ''123'' = [(''zip'', PInt 123)]
   \<and> parse_set_clause (''zip = '' @ [CHR 0x27] @ ''123'' @ [CHR 0x27]) = [(''zip'', PInt 123)]
   \<and> parse_where (''WHERE zip = '' @ [CHR 0x27] @ ''123'' @ [CHR 0x27]) = [(''zip'', PInt 123)]
   \<and> parse_insert_values ''x'' ([CHR 0x27] @ ''1.5'' @ [CHR 0x27]) = [(''x'', PFloat (Float 3 (- 1)))]
   \<and> parse_insert_values ''name'' ([CHR 0x27] @ ''Alice'' @ [CHR 0x27]) = [(''name'', PStr ''Alice'')]"
proof -
  have a: "parse_insert_values ''zip'' ([CHR 0x27] @ ''123'' @ [CHR 0x27]) = [(''zip'', PInt 123)]"
    by code_simp
  have b: "parse_insert_values ''zip'' ([CHR 0x22] @ ''123'' @ [CHR 0x22]) = [(''zip'', PInt 123)]"
    by code_simp
  have c: "parse_insert_values ''zip'' ''123'' = [(''zip'', PInt 123)]"
    by code_simp
  have d: "parse_set_clause (''zip = '' @ [CHR 0x27] @ ''123'' @ [CHR 0x27]) = [(''zip'', PInt 123)]"
    by code_simp
  have e: "parse_where (''WHERE zip = '' @ [CHR 0x27] @ ''123'' @ [CHR 0x27]) = [(''zip'', PInt 123)]"
    by code_simp
  have f: "parse_insert_values ''x'' ([CHR 0x27] @ ''1.5'' @ [CHR 0x27]) = [(''x'', PFloat (Float 3 (- 1)))]"
    by (simp add: parser_defs float_defs)
  have g: "parse_insert_values ''name'' ([CHR 0x27] @ ''Alice'' @ [CHR 0x27]) = [(''name'', PStr ''Alice'')]"
    by code_simp
  from a b c d e f g show ?thesis by blast
qed

lemma word_not_space: "is_word c \<Longrightarrow> \<not> is_space c"
  by (auto simp: is_word_def is_space_def Let_def)

lemma eq_not_word: "\<not> is_word CHR ''=''"
  by (simp add: is_word_def)

lemma eq_not_space: "\<not> is_space CHR ''=''"
  by (simp add: is_space_def)

lemma newline_space: "is_space (CHR 0x0A)"
  by (simp add: is_space_def)

lemma value_group_iff: "(value_group rest \<noteq> None) = can_start_value rest"
proof
  assume v: "value_group rest \<noteq> None"
  show "can_start_value rest"
  proof (cases "dropWhile is_space rest")
    case Nil
    with v have f: "filter (\<lambda>c. c \<noteq> CHR 0x0A) (takeWhile is_space rest) \<noteq> []"
      by (auto simp: value_group_def split: list.splits)
    from Nil have all: "\<forall>x \<in> set rest. is_space x" by (simp add: dropWhile_eq_Nil_conv)
    then have "takeWhile is_space rest = rest" by (simp add: takeWhile_eq_all_conv)
    with f have "filter (\<lambda>c. c \<noteq> CHR 0x0A) rest \<noteq> []" by simp
    then obtain c where c: "c \<in> set rest" "c \<noteq> CHR 0x0A"
      by (auto simp: filter_empty_conv)
    then obtain ws tl where "rest = ws @ c # tl" by (meson split_list)
    with all c show ?thesis unfolding can_start_value_def by (intro exI[of _ ws] exI[of _ c] exI[of _ tl]) auto
  next
    case (Cons c cs)
    then have r: "rest = takeWhile is_space rest @ c # cs" by (metis takeWhile_dropWhile_id)
    from Cons have "\<not> is_space c" by (metis dropWhile_eq_Cons_conv)
    then have "c \<noteq> CHR 0x0A" using newline_space by auto
    with r show ?thesis unfolding can_start_value_def
      by (intro exI[of _ "takeWhile is_space rest"] exI[of _ c] exI[of _ cs])
         (auto dest: set_takeWhileD)
  qed
next
  assume "can_start_value rest"
  then obtain ws c tl where r: "rest = ws @ c # tl" "\<forall>x \<in> set ws. is_space x" "c \<noteq> CHR 0x0A"
    unfolding can_start_value_def by blast
  show "value_group rest \<noteq> None"
  proof (cases "dropWhile is_space rest")
    case Nil
    then have all: "\<forall>x \<in> set rest. is_space x" by (simp add: dropWhile_eq_Nil_conv)
    then have t: "takeWhile is_space rest = rest" by (simp add: takeWhile_eq_all_conv)
    from r have "c \<in> set (filter (\<lambda>c. c \<noteq> CHR 0x0A) rest)" by simp
    then have nf: "filter (\<lambda>c. c \<noteq> CHR 0x0A) rest \<noteq> []" by (metis empty_iff list.set(1))
    have "value_group rest = (case filter (\<lambda>c. c \<noteq> CHR 0x0A) rest of
                 [] \<Rightarrow> None | c # cs \<Rightarrow> Some [last (c # cs)])"
      unfolding value_group_def Nil t by simp
    with nf show ?thesis by (cases "filter (\<lambda>c. c \<noteq> CHR 0x0A) rest") auto
  next
    case (Cons d ds)
    then show ?thesis by (simp add: value_group_def)
  qed
qed

lemma after_word_spaces:
  "\<forall>c \<in> set ws. is_space c \<Longrightarrow> after_word (ws @ CHR ''='' # rest) = value_group rest"
proof -
  assume a: "\<forall>c \<in> set ws. is_space c"
  then have "dropWhile is_space (ws @ CHR ''='' # rest) = CHR ''='' # rest"
    by (simp add: dropWhile_append3 eq_not_space)
  then show ?thesis by (simp add: after_word_def)
qed

lemma after_word_Some:
  assumes "after_word t = Some g"
  shows "\<exists>ws rest. t = ws @ CHR ''='' # rest \<and> (\<forall>c \<in> set ws. is_space c) \<and> value_group rest = Some g"
proof (cases "dropWhile is_space t")
  case Nil
  with assms show ?thesis by (simp add: after_word_def)
next
  case (Cons c cs)
  with assms have c: "c = CHR ''=''" "value_group cs = Some g"
    by (auto simp: after_word_def split: if_splits)
  from Cons have "t = takeWhile is_space t @ c # cs" by (metis takeWhile_dropWhile_id)
  with c show ?thesis
    by (intro exI[of _ "takeWhile is_space t"] exI[of _ cs]) (auto dest: set_takeWhileD)
qed

lemma where_scan_word:
  "\<forall>c \<in> set w. is_word c \<Longrightarrow> where_scan acc (w @ t) = where_scan (rev w @ acc) t"
  by (induction w arbitrary: acc) auto

lemma where_scan_complete:
  assumes w: "w \<noteq> []" "\<forall>c \<in> set w. is_word c" and ws: "\<forall>c \<in> set ws. is_space c"
    and v: "value_group rest \<noteq> None"
  shows "where_scan acc (p @ w @ ws @ CHR ''='' # rest) \<noteq> None"
proof (induction p arbitrary: acc)
  case Nil
  let ?t = "ws @ CHR ''='' # rest"
  have aw: "after_word ?t \<noteq> None" using after_word_spaces[OF ws] v by simp
  have nw: "?t \<noteq> []" "\<not> is_word (hd ?t)"
    using ws by (cases ws; auto simp: eq_not_word dest: word_not_space)+
  then obtain c cs where t: "?t = c # cs" "\<not> is_word c" by (cases ?t) auto
  have "where_scan (rev w @ acc) (c # cs) \<noteq> None"
    using aw t w(1) by (auto split: option.splits)
  then show ?case using where_scan_word[OF w(2), of acc ?t] t by simp
next
  case (Cons c p)
  then show ?case by (auto split: option.splits)
qed

lemma where_scan_sound:
  assumes "\<forall>c \<in> set acc. is_word c" and "where_scan acc s = Some r"
  shows "equality_at (rev acc @ s)"
  using assms
proof (induction s arbitrary: acc)
  case Nil
  then show ?case by simp
next
  case (Cons c cs)
  show ?case
  proof (cases "is_word c")
    case True
    with Cons.prems have "where_scan (c # acc) cs = Some r" "\<forall>x \<in> set (c # acc). is_word x" by auto
    from Cons.IH[OF this(2) this(1)] show ?thesis by simp
  next
    case False
    show ?thesis
    proof (cases "acc \<noteq> [] \<and> after_word (c # cs) \<noteq> None")
      case True
      then obtain g where g: "after_word (c # cs) = Some g" by auto
      from after_word_Some[OF g] obtain ws rest where
        d: "c # cs = ws @ CHR ''='' # rest" "\<forall>x \<in> set ws. is_space x" "value_group rest = Some g" by blast
      have "can_start_value rest" using d(3) value_group_iff[of rest] by simp
      with d True Cons.prems(1) show ?thesis
        unfolding equality_at_def
        by (intro exI[of _ "[]"] exI[of _ "rev acc"] exI[of _ ws] exI[of _ rest]) auto
    next
      case nf: False
      with False Cons.prems(2) have "where_scan [] cs = Some r"
        by (auto split: option.splits if_splits)
      from Cons.IH[OF _ this] have "equality_at cs" by simp
      then obtain pre w ws rest where
        d: "cs = pre @ w @ ws @ CHR ''='' # rest" "w \<noteq> []" "\<forall>c \<in> set w. is_word c"
           "\<forall>c \<in> set ws. is_space c" "can_start_value rest"
        unfolding equality_at_def by blast
      then show ?thesis
        unfolding equality_at_def
        by (intro exI[of _ "rev acc @ c # pre"] exI[of _ w] exI[of _ ws] exI[of _ rest]) auto
    qed
  qed
qed

lemma where_match_iff: "(where_match s \<noteq> None) = equality_at s"
proof
  assume "where_match s \<noteq> None"
  then obtain r where "where_scan [] s = Some r" by (auto simp: where_match_def)
  from where_scan_sound[OF _ this] show "equality_at s" by simp
next
  assume "equality_at s"
  then obtain pre w ws rest where
    d: "s = pre @ w @ ws @ CHR ''='' # rest" "w \<noteq> []" "\<forall>c \<in> set w. is_word c"
       "\<forall>c \<in> set ws. is_space c" "can_start_value rest"
    unfolding equality_at_def by blast
  from d(5) have "value_group rest \<noteq> None" using value_group_iff[of rest] by blast
  from where_scan_complete[OF d(2) d(3) d(4) this, of "[]" pre] d(1)
  show "where_match s \<noteq> None" by (simp add: where_match_def)
qed

lemma no_word_before_eq_no_entry:
  assumes "no_word_before_eq s"
  shows "\<not> equality_at s"
proof
  assume "equality_at s"
  then obtain pre w ws rest where
    d: "s = pre @ w @ ws @ CHR ''='' # rest" "w \<noteq> []" "\<forall>c \<in> set w. is_word c"
       "\<forall>c \<in> set ws. is_space c"
    unfolding equality_at_def by blast
  let ?i = "length (pre @ w @ ws)"
  have i: "?i < length s" "s ! ?i = CHR ''=''" "take ?i s = pre @ w @ ws"
    using d(1) by (simp_all add: nth_append)
  have lw: "is_word (last w)" using d(2,3) by simp
  have "rev (pre @ w @ ws) = rev ws @ last w # rev (butlast w) @ rev pre"
    using d(2) by (metis append_butlast_last_id rev.simps(2) rev_append rev_rev_ident append.assoc append_Cons append_Nil)
  moreover have "dropWhile is_space (rev ws @ last w # rev (butlast w) @ rev pre)
                   = last w # rev (butlast w) @ rev pre"
    using d(4) lw by (simp add: dropWhile_append3 word_not_space)
  ultimately have "dropWhile is_space (rev (pre @ w @ ws)) = last w # rev (butlast w) @ rev pre"
    by (simp only:)
  then have "word_before (pre @ w @ ws)"
    unfolding word_before_def using lw by (simp only: list.case)
  with assms i show False unfolding no_word_before_eq_def by metis
qed

lemma where_part_no_entry: "\<not> has_entry part \<Longrightarrow> where_part part conds = conds"
  by (cases "where_match (py_strip part)") (auto simp: has_entry_def where_part_def)

lemma fold_where_part_filter:
  "fold where_part ps conds = fold where_part (filter has_entry ps) conds"
  by (induction ps arbitrary: conds) (simp_all add: where_part_no_entry)

text \<open>
  C10. The claim: a WHERE predicate that is not of the form \<open>column = value\<close>, such as
  \<open>column > value\<close> or \<open>column != value\<close>, produces no entry in the conditions and no
  error, so the statement runs as if the predicate were absent. \<open>_parse_where\<close> searches
  each part for a word followed by \<open>=\<close>, anywhere in the part: \<open>x != 'a=b'\<close> yields the
  entry \<open>a: 'b'\<close> and \<open>a == 5\<close> yields \<open>a: '= 5'\<close>. What holds: a part yields an entry
  exactly when its text, stripped, holds a word followed by optional whitespace, \<open>=\<close> and
  something to read as a value (\<open>equality_at\<close>); in particular a part in which no \<open>=\<close> has
  a word before it yields none. A part without an entry leaves the conditions as they
  are, the conditions of a clause are those of its parts that have an entry, and two
  clauses with the same such parts give the same execution of any statement.
\<close>

theorem where_ignores_other_operators:
  "(has_entry part = equality_at (py_strip part))
   \<and> (no_word_before_eq (py_strip part) \<longrightarrow> \<not> has_entry part)
   \<and> (\<not> has_entry part \<longrightarrow> where_part part conds = conds)
   \<and> parse_where w = fold where_part (filter has_entry (where_parts w)) []
   \<and> (filter has_entry (where_parts w) = filter has_entry (where_parts w')
        \<longrightarrow> execute u (with_where w q) ex = execute u (with_where w' q) ex)"
proof (intro conjI impI)
  show "has_entry part = equality_at (py_strip part)"
    unfolding has_entry_def by (rule where_match_iff)
next
  assume "no_word_before_eq (py_strip part)"
  then have "\<not> equality_at (py_strip part)" by (rule no_word_before_eq_no_entry)
  then show "\<not> has_entry part"
    unfolding has_entry_def using where_match_iff[of "py_strip part"] by blast
next
  assume "\<not> has_entry part"
  then show "where_part part conds = conds" by (rule where_part_no_entry)
next
  show "parse_where w = fold where_part (filter has_entry (where_parts w)) []"
    unfolding parse_where_def where_parts_def by (rule fold_where_part_filter)
next
  assume e: "filter has_entry (where_parts w) = filter has_entry (where_parts w')"
  have "parse_where w = fold where_part (filter has_entry (where_parts w)) []"
    "parse_where w' = fold where_part (filter has_entry (where_parts w')) []"
    unfolding parse_where_def where_parts_def by (rule fold_where_part_filter)+
  with e have "parse_where w = parse_where w'" by simp
  then show "execute u (with_where w q) ex = execute u (with_where w' q) ex"
    by (simp add: with_where_def)
qed

theorem where_ignores_other_operators_witness:
  "\<not> has_entry ''age > 30'' \<and> \<not> has_entry ''age >= 30'' \<and> \<not> has_entry ''age != 30''
   \<and> \<not> has_entry ''t.age <> 5'' \<and> \<not> has_entry ''a !== 5''
   \<and> where_part ''age >= 30'' [(''name'', PStr ''Bob'')] = [(''name'', PStr ''Bob'')]
   \<and> parse_where ''WHERE name = Bob AND age >= 30'' = [(''name'', PStr ''Bob'')]
   \<and> execute [] (with_where ''WHERE a = 1 AND b >= 2''
                    ((ParsedQuery ''DELETE'')\<lparr>table := ''t''\<rparr>)) three_rows
       = execute [] (with_where ''WHERE a = 1''
                    ((ParsedQuery ''DELETE'')\<lparr>table := ''t''\<rparr>)) three_rows"
proof -
  note th = where_ignores_other_operators
  have n: "no_word_before_eq (py_strip ''age > 30'')" "no_word_before_eq (py_strip ''age >= 30'')"
    "no_word_before_eq (py_strip ''age != 30'')" "no_word_before_eq (py_strip ''t.age <> 5'')"
    "no_word_before_eq (py_strip ''a !== 5'')"
    by code_simp+
  have a: "\<not> has_entry ''age > 30''" using th[of "''age > 30''"] n(1) by blast
  have b: "\<not> has_entry ''age >= 30''" using th[of "''age >= 30''"] n(2) by blast
  have c: "\<not> has_entry ''age != 30''" using th[of "''age != 30''"] n(3) by blast
  have d: "\<not> has_entry ''t.age <> 5''" using th[of "''t.age <> 5''"] n(4) by blast
  have e: "\<not> has_entry ''a !== 5''" using th[of "''a !== 5''"] n(5) by blast
  have f: "where_part ''age >= 30'' [(''name'', PStr ''Bob'')] = [(''name'', PStr ''Bob'')]"
    using th[of "''age >= 30''" "[(''name'', PStr ''Bob'')]"] b by blast
  have g: "parse_where ''WHERE name = Bob AND age >= 30'' = [(''name'', PStr ''Bob'')]"
    by code_simp
  have p: "filter has_entry (where_parts ''WHERE a = 1 AND b >= 2'')
             = filter has_entry (where_parts ''WHERE a = 1'')"
    by code_simp
  have h: "execute [] (with_where ''WHERE a = 1 AND b >= 2''
                    ((ParsedQuery ''DELETE'')\<lparr>table := ''t''\<rparr>)) three_rows
       = execute [] (with_where ''WHERE a = 1''
                    ((ParsedQuery ''DELETE'')\<lparr>table := ''t''\<rparr>)) three_rows"
    using th[where w = "''WHERE a = 1 AND b >= 2''" and w' = "''WHERE a = 1''"] p by blast
  from a b c d e f g h show ?thesis by blast
qed

text \<open>Predicates that are no equalities and yet yield an entry.\<close>

theorem where_entry_from_inequality:
  "has_entry (''x != '' @ [CHR 0x27] @ ''a=b'' @ [CHR 0x27])
   \<and> parse_where (''WHERE x != '' @ [CHR 0x27] @ ''a=b'' @ [CHR 0x27]) = [(''a'', PStr ''b'')]
   \<and> has_entry ''a == 5''
   \<and> parse_where ''WHERE a == 5'' = [(''a'', PStr ''= 5'')]
   \<and> has_entry (''name LIKE '' @ [CHR 0x27] @ ''x=%'' @ [CHR 0x27])"
  by code_simp

end
